theory Spec2Isabelle
  imports Main "HOL-Library.Word" "HOL-Library.AList_Mapping"
begin

section \<open>The compilation unit of libbcc (RSScript) and its persistent cache\<close>

text \<open>
  A shallow embedding of \<^verbatim>\<open>lib/ExecutionEngine/RSScript.cpp\<close> and of the inline
  members of \<^verbatim>\<open>lib/ExecutionEngine/MCCacheReader.h\<close>. Member functions take the
  object as an explicit record and return the updated record; the calls a member function
  makes into its collaborators (file locks, files, the compiler, the cache reader and
  writer, the log) are returned as a list of events, in program order. What a collaborator
  answers is read from an \<open>environment\<close> record.
\<close>

subsection \<open>Data\<close>

type_synonym bytes = "8 word list"

text \<open>A SHA-1 digest: the 20 bytes behind an \<^verbatim>\<open>unsigned char const *\<close>.\<close>
type_synonym sha1 = bytes

text \<open>\<^verbatim>\<open>BCCSymbolLookupFn\<close>: context pointer and symbol name to address.\<close>
type_synonym BCCSymbolLookupFn = "nat \<Rightarrow> string \<Rightarrow> nat"

text \<open>A \<^verbatim>\<open>char const *\<close> to native code; \<open>None\<close> is the null pointer.\<close>
type_synonym elf_ptr = "bytes option"

datatype ScriptStatus = StatusUnknown | StatusCompiled | StatusCached

datatype ScriptObject = ObjectUnknown | ObjectRelocatable | ObjectExecutable

datatype bcc_error = BCC_NO_ERROR | BCC_INVALID_OPERATION | BCC_OUT_OF_MEMORY

text \<open>
  The classes \<^verbatim>\<open>ScriptCompiled\<close> and \<^verbatim>\<open>ScriptCached\<close> are collaborators; the
  unit only forwards to their accessors. Each is the record of what its accessors return.
\<close>

record ScriptCompiled =
  compiled_ExportVarCount :: nat
  compiled_ExportFuncCount :: nat
  compiled_ExportForEachCount :: nat
  compiled_PragmaCount :: nat
  compiled_FuncCount :: nat
  compiled_ObjectSlotCount :: nat
  compiled_ELFSize :: nat
  compiled_ELF :: elf_ptr

record ScriptCached =
  cached_ExportVarCount :: nat
  cached_ExportFuncCount :: nat
  cached_ExportForEachCount :: nat
  cached_PragmaCount :: nat
  cached_FuncCount :: nat
  cached_ObjectSlotCount :: nat
  cached_ELFSize :: nat
  cached_ELF :: elf_ptr
  cached_isLibRSThreadable :: bool

record SourceDependency =
  mSourceName :: string
  mSHA1 :: sha1

text \<open>
  The members of \<^verbatim>\<open>RSScript\<close> that the member functions of RSScript.cpp read or
  write. \<open>mCompiled\<close> and \<open>mCached\<close> are pointers: \<open>None\<close> is the null pointer.
\<close>

record RSScript =
  mErrorCode :: bcc_error
  mStatus :: ScriptStatus
  mObjectType :: ScriptObject
  mCompiled :: "ScriptCompiled option"
  mCached :: "ScriptCached option"
  mIsContextSlotNotAvail :: bool
  mCacheDir :: string
  mCacheName :: string
  mpExtSymbolLookupFn :: "BCCSymbolLookupFn option"
  mpExtSymbolLookupFnContext :: nat
  mSourceDependencies :: "SourceDependency list"

subsection \<open>Events\<close>

text \<open>
  The calls into collaborators, as the member functions make them. \<open>ALOGE\<close> carries
  the format string of the log call (without its trailing newline). \<open>MutexInit\<close> is
  the construction of a \<^verbatim>\<open>FileMutex\<close> on a path, \<open>MutexLock\<close> a call of its
  \<^verbatim>\<open>lock()\<close> with the answer. Destructors are not recorded.
\<close>

datatype lock_kind = kReadLock | kWriteLock

datatype event =
    ALOGE string
  | MutexInit lock_kind string
  | MutexLock lock_kind string bool
  | InputFileOpen string
  | OutputFileOpen string
  | ReaderCheckCacheFile
  | ReaderReadCacheFile
  | WriterAddDependency string sha1
  | WriterWriteCacheFile "32 word"
  | SymbolLookup nat string
  | FileTruncate string
  | FileClose string
  | Unlink string
  | NewScriptCompiled
  | CompiledRegisterSymbolCallback
  | ReadModule
  | Compile
  | RegisterObjectWithGDB "elf_ptr option" "nat option"

subsection \<open>State reset and registration\<close>

text \<open>
  \<^verbatim>\<open>RSScript::resetState\<close>. \<^verbatim>\<open>llvm::DeleteContainerPointers\<close> deletes every element
  and clears the vector. The two symbol-lookup members are left as they are (the source
  has the assignments commented out).
\<close>

definition resetState :: "RSScript \<Rightarrow> RSScript" where
  "resetState s =
     s\<lparr>mErrorCode := BCC_NO_ERROR,
       mStatus := StatusUnknown,
       mObjectType := ObjectUnknown,
       mIsContextSlotNotAvail := False,
       mSourceDependencies := []\<rparr>"

definition doReset :: "RSScript \<Rightarrow> bool \<times> RSScript" where
  "doReset s = (True, resetState s)"

text \<open>\<^verbatim>\<open>RSScript::registerSymbolCallback\<close>.\<close>

definition registerSymbolCallback ::
    "BCCSymbolLookupFn option \<Rightarrow> nat \<Rightarrow> RSScript \<Rightarrow> (int \<times> RSScript) \<times> event list" where
  "registerSymbolCallback pFn pContext s =
     (let s1 = s\<lparr>mpExtSymbolLookupFn := pFn, mpExtSymbolLookupFnContext := pContext\<rparr>
      in if mStatus s1 \<noteq> StatusUnknown
         then ((1, s1\<lparr>mErrorCode := BCC_INVALID_OPERATION\<rparr>),
               [ALOGE ''Invalid operation: %s''])
         else ((0, s1), []))"

subsection \<open>Export accessors\<close>

text \<open>
  Each accessor switches on \<open>mStatus\<close> and forwards to \<open>mCompiled\<close> or \<open>mCached\<close>.
  The result \<open>None\<close> stands for the dereference of a null pointer.
\<close>

definition getExportVarCount :: "RSScript \<Rightarrow> nat option" where
  "getExportVarCount s =
     (case mStatus s of
        StatusCompiled \<Rightarrow> map_option compiled_ExportVarCount (mCompiled s)
      | StatusCached \<Rightarrow> map_option cached_ExportVarCount (mCached s)
      | StatusUnknown \<Rightarrow> Some 0)"

definition getExportFuncCount :: "RSScript \<Rightarrow> nat option" where
  "getExportFuncCount s =
     (case mStatus s of
        StatusCompiled \<Rightarrow> map_option compiled_ExportFuncCount (mCompiled s)
      | StatusCached \<Rightarrow> map_option cached_ExportFuncCount (mCached s)
      | StatusUnknown \<Rightarrow> Some 0)"

definition getExportForEachCount :: "RSScript \<Rightarrow> nat option" where
  "getExportForEachCount s =
     (case mStatus s of
        StatusCompiled \<Rightarrow> map_option compiled_ExportForEachCount (mCompiled s)
      | StatusCached \<Rightarrow> map_option cached_ExportForEachCount (mCached s)
      | StatusUnknown \<Rightarrow> Some 0)"

definition getPragmaCount :: "RSScript \<Rightarrow> nat option" where
  "getPragmaCount s =
     (case mStatus s of
        StatusCompiled \<Rightarrow> map_option compiled_PragmaCount (mCompiled s)
      | StatusCached \<Rightarrow> map_option cached_PragmaCount (mCached s)
      | StatusUnknown \<Rightarrow> Some 0)"

definition getFuncCount :: "RSScript \<Rightarrow> nat option" where
  "getFuncCount s =
     (case mStatus s of
        StatusCompiled \<Rightarrow> map_option compiled_FuncCount (mCompiled s)
      | StatusCached \<Rightarrow> map_option cached_FuncCount (mCached s)
      | StatusUnknown \<Rightarrow> Some 0)"

definition getObjectSlotCount :: "RSScript \<Rightarrow> nat option" where
  "getObjectSlotCount s =
     (case mStatus s of
        StatusCompiled \<Rightarrow> map_option compiled_ObjectSlotCount (mCompiled s)
      | StatusCached \<Rightarrow> map_option cached_ObjectSlotCount (mCached s)
      | StatusUnknown \<Rightarrow> Some 0)"

definition getELFSize :: "RSScript \<Rightarrow> nat option" where
  "getELFSize s =
     (case mStatus s of
        StatusCompiled \<Rightarrow> map_option compiled_ELFSize (mCompiled s)
      | StatusCached \<Rightarrow> map_option cached_ELFSize (mCached s)
      | StatusUnknown \<Rightarrow> Some 0)"

definition getELF :: "RSScript \<Rightarrow> elf_ptr option" where
  "getELF s =
     (case mStatus s of
        StatusCompiled \<Rightarrow> map_option compiled_ELF (mCompiled s)
      | StatusCached \<Rightarrow> map_option cached_ELF (mCached s)
      | StatusUnknown \<Rightarrow> Some None)"

subsection \<open>Collaborators\<close>

text \<open>
  Modelled from the spec: the layout of the info file (the \<^verbatim>\<open>MCO_\<close> structures) is
  missing. This is the info file as the reader sees it. Sections 3 and 4.2 name the parts
  of the file and the validation stages, not the bytes, so the outcome of each structural
  stage (1 to 5) is a field, and the stored dependency ledger, the object-slot list and the
  relocation table (symbol name and patch offset) are lists.
\<close>

record cache_info =
  ci_fileSizeOk :: bool
  ci_headerOk :: bool
  ci_machineIntTypeOk :: bool
  ci_sectionsOk :: bool
  ci_stringPoolOk :: bool
  ci_dependencies :: "(string \<times> sha1) list"
  ci_objectSlots :: "nat list"
  ci_relocations :: "(string \<times> nat) list"
  ci_script :: ScriptCached

text \<open>
  What the collaborators answer. \<open>property_get env key default\<close> is the value that
  \<^verbatim>\<open>property_get\<close> leaves in the buffer. \<open>TARGET_BUILD\<close> is the preprocessor symbol.
  \<open>pathLibBCC_SHA1\<close> to \<open>sha1LibRS\<close> are the constants of Sha1Helper.h, and
  \<open>cachedObjectPath\<close> and \<open>cacheInfoPath\<close> the path functions of the class
  declaration, from \<open>mCacheDir\<close> and \<open>mCacheName\<close>. \<open>new_ScriptCompiled\<close> is the
  result of the non-throwing \<^verbatim>\<open>new\<close> (\<open>None\<close>: out of memory), seen through its
  accessors as they answer after \<open>internalCompile\<close>. \<open>written_obj\<close> and
  \<open>written_info\<close> are the bytes that the writer leaves in the two files, whether it
  succeeds or fails half way. \<open>decodeInfo\<close> parses an info file, \<open>slot_available\<close> is
  the runtime's current slot layout.
\<close>

record environment =
  property_get :: "string \<Rightarrow> string \<Rightarrow> string"
  TARGET_BUILD :: bool
  pathLibBCC_SHA1 :: string
  sha1LibBCC_SHA1 :: sha1
  pathLibRS :: string
  sha1LibRS :: sha1
  cachedObjectPath :: "string \<Rightarrow> string \<Rightarrow> string"
  cacheInfoPath :: "string \<Rightarrow> string \<Rightarrow> string"
  mutex_hasError :: "lock_kind \<Rightarrow> string \<Rightarrow> bool"
  mutex_lock :: "lock_kind \<Rightarrow> string \<Rightarrow> bool"
  input_hasError :: "string \<Rightarrow> bool"
  output_hasError :: "string \<Rightarrow> bool"
  new_ScriptCompiled :: "ScriptCompiled option"
  readModule_result :: int
  compile_result :: int
  compilerErrorMessage :: "string option"
  writeCacheFile_result :: bool
  written_obj :: bytes
  written_info :: bytes
  truncate_ok :: "string \<Rightarrow> bool"
  unlink_result :: "string \<Rightarrow> int"
  decodeInfo :: "bytes \<Rightarrow> cache_info"
  slot_available :: "nat \<Rightarrow> bool"

text \<open>The files of the cache directory: path to contents.\<close>
type_synonym filesystem = "string \<rightharpoonup> bytes"

record InputFile =
  in_hasError :: bool
  in_data :: bytes

text \<open>
  Modelled from the spec: \<^verbatim>\<open>InputFile\<close> (InputFile.h) is missing; section 1 takes
  the file primitives as given. Opening for reading fails on a missing file, or when the
  environment says so.
\<close>

definition InputFile_open :: "environment \<Rightarrow> filesystem \<Rightarrow> string \<Rightarrow> InputFile" where
  "InputFile_open env fs path =
     \<lparr>in_hasError = (input_hasError env path \<or> fs path = None),
      in_data = (case fs path of None \<Rightarrow> [] | Some b \<Rightarrow> b)\<rparr>"

text \<open>
  Modelled from the spec: \<^verbatim>\<open>OutputFile\<close> (OutputFile.h) is missing; section 1 takes
  the file primitives as given. Opening for writing creates a missing file, unless it
  fails; the first component is \<^verbatim>\<open>hasError()\<close>.
\<close>

definition OutputFile_open :: "environment \<Rightarrow> filesystem \<Rightarrow> string \<Rightarrow> bool \<times> filesystem" where
  "OutputFile_open env fs path =
     (if output_hasError env path then (True, fs)
      else (False, case fs path of None \<Rightarrow> fs(path \<mapsto> []) | Some b \<Rightarrow> fs))"

text \<open>
  Modelled from the spec: \<^verbatim>\<open>OutputFile::truncate\<close> is missing. Section 4.3: it
  leaves the file with length zero; when the environment makes it fail, the file is as
  before.
\<close>

definition OutputFile_truncate :: "environment \<Rightarrow> string \<Rightarrow> filesystem \<Rightarrow> filesystem" where
  "OutputFile_truncate env path fs = (if truncate_ok env path then fs(path \<mapsto> []) else fs)"

text \<open>The system call \<^verbatim>\<open>unlink\<close>: the path is removed when it returns 0.\<close>

definition unlink :: "environment \<Rightarrow> string \<Rightarrow> filesystem \<Rightarrow> filesystem" where
  "unlink env path fs = (if unlink_result env path = 0 then fs(path := None) else fs)"

text \<open>
  The value of \<^verbatim>\<open>m.hasError() || !m.lock()\<close> negated, with the calls it makes:
  \<^verbatim>\<open>lock()\<close> is called only on a mutex without error.
\<close>

definition acquire :: "environment \<Rightarrow> lock_kind \<Rightarrow> string \<Rightarrow> bool \<times> event list" where
  "acquire env k path =
     (if mutex_hasError env k path then (False, [])
      else (mutex_lock env k path, [MutexLock k path (mutex_lock env k path)]))"

subsection \<open>The cache reader\<close>

text \<open>
  The members of \<^verbatim>\<open>MCCacheReader\<close> that its inline member functions use.
  \<open>mDependencies\<close> is a \<^verbatim>\<open>std::map\<close> from name to digest, a finite map. The
  constructor leaves the two symbol-lookup members uninitialised; they are null here.
\<close>

record MCCacheReader =
  mDependencies :: "(string, sha1) mapping"
  reader_mIsContextSlotNotAvail :: bool
  mpSymbolLookupFn :: "BCCSymbolLookupFn option"
  mpSymbolLookupContext :: nat

definition MCCacheReader_new :: MCCacheReader where
  "MCCacheReader_new =
     \<lparr>mDependencies = Mapping.empty, reader_mIsContextSlotNotAvail = False,
      mpSymbolLookupFn = None, mpSymbolLookupContext = 0\<rparr>"

text \<open>
  \<^verbatim>\<open>MCCacheReader::addDependency\<close>: \<^verbatim>\<open>std::map::insert\<close> inserts only when the key is
  not in the map yet; an entry with the same name is kept as it is.
\<close>

definition addDependency :: "string \<Rightarrow> sha1 \<Rightarrow> MCCacheReader \<Rightarrow> MCCacheReader" where
  "addDependency resName sha r =
     r\<lparr>mDependencies :=
         (case Mapping.lookup (mDependencies r) resName of
            None \<Rightarrow> Mapping.update resName sha (mDependencies r)
          | Some old \<Rightarrow> mDependencies r)\<rparr>"

definition isContextSlotNotAvail :: "MCCacheReader \<Rightarrow> bool" where
  "isContextSlotNotAvail r = reader_mIsContextSlotNotAvail r"

definition reader_registerSymbolCallback ::
    "BCCSymbolLookupFn option \<Rightarrow> nat \<Rightarrow> MCCacheReader \<Rightarrow> MCCacheReader" where
  "reader_registerSymbolCallback pFn pContext r =
     r\<lparr>mpSymbolLookupFn := pFn, mpSymbolLookupContext := pContext\<rparr>"

text \<open>A sequence of \<open>addDependency\<close> calls on a reader, first call first.\<close>

definition addDependencies :: "(string \<times> sha1) list \<Rightarrow> MCCacheReader \<Rightarrow> MCCacheReader" where
  "addDependencies deps r = fold (\<lambda>(resName, sha). addDependency resName sha) deps r"

text \<open>
  Modelled from the spec: \<^verbatim>\<open>MCCacheReader::checkDependency\<close> (MCCacheReader.cpp) is
  missing. Section 4.2, stage 6: identical entry count, and for each stored pair the
  caller's ledger contains the same name with an identical digest.
\<close>

definition checkDependency :: "MCCacheReader \<Rightarrow> cache_info \<Rightarrow> bool" where
  "checkDependency r ci =
     (length (ci_dependencies ci) = Mapping.size (mDependencies r) \<and>
      list_all (\<lambda>(name, sha). Mapping.lookup (mDependencies r) name = Some sha)
        (ci_dependencies ci))"

text \<open>
  Modelled from the spec: \<^verbatim>\<open>MCCacheReader::checkContext\<close> (MCCacheReader.cpp) is
  missing. Section 4.2, stage 7 and the context-slot scenario of section 8: every recorded
  object slot must be one the runtime's current layout can accommodate.
\<close>

definition checkContext :: "environment \<Rightarrow> cache_info \<Rightarrow> bool" where
  "checkContext env ci = list_all (slot_available env) (ci_objectSlots ci)"

text \<open>
  Modelled from the spec: \<^verbatim>\<open>MCCacheReader::relocate\<close> (MCCacheReader.cpp) is missing.
  Section 4.2, stage 8: every symbol of the relocation table must resolve through the
  registered lookup function; the null address is "unresolved".
\<close>

definition relocate :: "MCCacheReader \<Rightarrow> cache_info \<Rightarrow> bool" where
  "relocate r ci =
     list_all
       (\<lambda>(name, offset).
          case mpSymbolLookupFn r of
            None \<Rightarrow> False
          | Some f \<Rightarrow> f (mpSymbolLookupContext r) name \<noteq> 0)
       (ci_relocations ci)"

text \<open>
  Modelled from the spec: \<^verbatim>\<open>MCCacheReader::checkCacheFile\<close> (MCCacheReader.cpp) is
  missing. Section 4.2: the stages 1 to 7 in order, each short-circuiting; a failure of the
  context-slot stage raises the flag, which nothing lowers.
\<close>

definition checkCacheFile ::
    "environment \<Rightarrow> InputFile \<Rightarrow> InputFile \<Rightarrow> MCCacheReader \<Rightarrow> bool \<times> MCCacheReader" where
  "checkCacheFile env objFile infoFile r =
     (let ci = decodeInfo env (in_data infoFile) in
      if \<not> ci_fileSizeOk ci then (False, r)
      else if \<not> ci_headerOk ci then (False, r)
      else if \<not> ci_machineIntTypeOk ci then (False, r)
      else if \<not> ci_sectionsOk ci then (False, r)
      else if \<not> ci_stringPoolOk ci then (False, r)
      else if \<not> checkDependency r ci then (False, r)
      else if \<not> checkContext env ci then (False, r\<lparr>reader_mIsContextSlotNotAvail := True\<rparr>)
      else (True, r))"

text \<open>
  Modelled from the spec: \<^verbatim>\<open>MCCacheReader::readCacheFile\<close> (MCCacheReader.cpp) is
  missing. Section 4.2: full validation, then relocation, then the artifact.
\<close>

definition readCacheFile ::
    "environment \<Rightarrow> InputFile \<Rightarrow> InputFile \<Rightarrow> MCCacheReader
       \<Rightarrow> ScriptCached option \<times> MCCacheReader" where
  "readCacheFile env objFile infoFile r =
     (let ci = decodeInfo env (in_data infoFile);
          (valid, r1) = checkCacheFile env objFile infoFile r
      in if \<not> valid then (None, r1)
         else if \<not> relocate r1 ci then (None, r1)
         else (Some (ci_script ci), r1))"

subsection \<open>The orchestrator\<close>

definition getBooleanProp :: "environment \<Rightarrow> string \<Rightarrow> bool" where
  "getBooleanProp env str = (property_get env str ''0'' \<noteq> ''0'')"

definition isCacheable :: "environment \<Rightarrow> RSScript \<Rightarrow> bool" where
  "isCacheable env s =
     (if getBooleanProp env ''debug.bcc.nocache'' then False
      else if mCacheDir s = [] \<or> mCacheName s = [] then False
      else True)"

definition getCachedObjectPath :: "environment \<Rightarrow> RSScript \<Rightarrow> string" where
  "getCachedObjectPath env s = cachedObjectPath env (mCacheDir s) (mCacheName s)"

definition getCacheInfoPath :: "environment \<Rightarrow> RSScript \<Rightarrow> string" where
  "getCacheInfoPath env s = cacheInfoPath env (mCacheDir s) (mCacheName s)"

text \<open>
  \<^verbatim>\<open>RSScript::addSourceDependency\<close>; the allocation is the environment's to refuse.
\<close>

definition addSourceDependency ::
    "bool \<Rightarrow> string \<Rightarrow> sha1 \<Rightarrow> RSScript \<Rightarrow> (bool \<times> RSScript) \<times> event list" where
  "addSourceDependency alloc_ok pSourceName pSHA1 s =
     (if \<not> alloc_ok
      then ((False, s),
            [ALOGE (''Out of memory when record dependency information of `%s'' @
                    [CHR 0x27] @ ''!'')])
      else ((True,
             s\<lparr>mSourceDependencies :=
                 mSourceDependencies s @ [\<lparr>mSourceName = pSourceName, mSHA1 = pSHA1\<rparr>]\<rparr>),
            []))"

text \<open>
  The reader that \<open>internalLoadCache\<close> builds before it reads (lines 255 to 271): the
  symbol callback when there is one, the two library dependencies, then the source
  dependencies in registration order.
\<close>

definition loadCacheReader :: "environment \<Rightarrow> RSScript \<Rightarrow> MCCacheReader" where
  "loadCacheReader env s =
     (let r0 = MCCacheReader_new;
          r1 = (case mpExtSymbolLookupFn s of
                  None \<Rightarrow> r0
                | Some f \<Rightarrow>
                    reader_registerSymbolCallback (Some f) (mpExtSymbolLookupFnContext s) r0);
          r2 = addDependency (pathLibBCC_SHA1 env) (sha1LibBCC_SHA1 env) r1;
          r3 = addDependency (pathLibRS env) (sha1LibRS env) r2
      in fold (\<lambda>source_dep. addDependency (mSourceName source_dep) (mSHA1 source_dep))
           (mSourceDependencies s) r3)"

text \<open>
  A member function returns its value and the updated unit, paired with the events it
  caused; \<open>emit ev r\<close> is the result \<open>r\<close> of the rest of a function after the events
  \<open>ev\<close>.
\<close>

definition emit :: "event list \<Rightarrow> 'a \<times> event list \<Rightarrow> 'a \<times> event list" where
  "emit ev r = (fst r, ev @ snd r)"

text \<open>
  The second half of \<^verbatim>\<open>RSScript::internalLoadCache\<close> (lines 239 to 293), under both
  locks: open the two files, build the reader, check or read.
\<close>

definition internalLoadCache_read ::
    "environment \<Rightarrow> filesystem \<Rightarrow> bool \<Rightarrow> string \<Rightarrow> string \<Rightarrow> RSScript
       \<Rightarrow> (int \<times> RSScript) \<times> event list" where
  "internalLoadCache_read env fs checkOnly objPath infoPath s =
     (let objFile = InputFile_open env fs objPath;
          infoFile = InputFile_open env fs infoPath
      in emit [InputFileOpen objPath, InputFileOpen infoPath]
           (if in_hasError objFile
            then ((1, s), [ALOGE ''Unable to open %s for reading! (%s)''])
            else if in_hasError infoFile
            then ((1, s), [ALOGE ''Unable to open %s for reading! (%s)''])
            else
              (let reader = loadCacheReader env s
               in if checkOnly
                  then ((if fst (checkCacheFile env objFile infoFile reader) then 0 else 1, s),
                        [ReaderCheckCacheFile])
                  else
                    (case readCacheFile env objFile infoFile reader of
                       (None, reader1) \<Rightarrow>
                         ((1, s\<lparr>mIsContextSlotNotAvail := isContextSlotNotAvail reader1\<rparr>),
                          [ReaderReadCacheFile])
                     | (Some cached, reader1) \<Rightarrow>
                         ((0, s\<lparr>mCached := Some cached, mStatus := StatusCached\<rparr>),
                          ReaderReadCacheFile #
                          (case mpExtSymbolLookupFn s of
                             None \<Rightarrow> []
                           | Some f \<Rightarrow>
                               if \<not> cached_isLibRSThreadable cached
                               then [SymbolLookup (mpExtSymbolLookupFnContext s)
                                       ''__clearThreadable'']
                               else []))))))"

text \<open>
  \<^verbatim>\<open>RSScript::internalLoadCache\<close> (lines 199 to 237, then the half above). The two
  arguments are \<^verbatim>\<open>char const *\<close>: \<open>None\<close> is the null pointer.
\<close>

definition internalLoadCache ::
    "environment \<Rightarrow> filesystem \<Rightarrow> string option \<Rightarrow> string option \<Rightarrow> bool \<Rightarrow> RSScript
       \<Rightarrow> (int \<times> RSScript) \<times> event list" where
  "internalLoadCache env fs cacheDir cacheName checkOnly s =
     (case (cacheDir, cacheName) of
        (Some dir, Some name) \<Rightarrow>
          (let s1 = s\<lparr>mCacheName := name,
                      mCacheDir := (if dir \<noteq> [] \<and> last dir \<noteq> CHR ''/''
                                    then dir @ ''/'' else dir)\<rparr>
           in if \<not> isCacheable env s1 then ((1, s1), [])
              else
                (let objPath = getCachedObjectPath env s1;
                     infoPath = getCacheInfoPath env s1
                 in emit [MutexInit kReadLock objPath, MutexInit kReadLock infoPath]
                      (let (objLocked, ev1) = acquire env kReadLock objPath
                       in emit ev1
                            (if \<not> objLocked
                             then ((1, s1), [ALOGE ''Unable to acquire the lock for %s! (%s)''])
                             else
                               (let (infoLocked, ev2) = acquire env kReadLock infoPath
                                in emit ev2
                                     (if \<not> infoLocked
                                      then ((1, s1),
                                            [ALOGE ''Unable to acquire the lock for %s! (%s)''])
                                      else internalLoadCache_read env fs checkOnly
                                             objPath infoPath s1))))))
      | _ \<Rightarrow> ((1, s), []))"

text \<open>
  \<^verbatim>\<open>RSScript::internalCompile\<close>, called with a default \<^verbatim>\<open>CompilerOption\<close>.
\<close>

definition internalCompile ::
    "environment \<Rightarrow> RSScript \<Rightarrow> (int \<times> RSScript) \<times> event list" where
  "internalCompile env s =
     (case new_ScriptCompiled env of
        None \<Rightarrow>
          ((1, s\<lparr>mCompiled := None, mErrorCode := BCC_OUT_OF_MEMORY\<rparr>),
           [NewScriptCompiled, ALOGE ''Out of memory: %s %d''])
      | Some compiled \<Rightarrow>
          (let s1 = s\<lparr>mCompiled := Some compiled, mStatus := StatusCompiled\<rparr>;
               ev1 = NewScriptCompiled #
                     (case mpExtSymbolLookupFn s1 of
                        None \<Rightarrow> []
                      | Some f \<Rightarrow> [CompiledRegisterSymbolCallback])
           in if readModule_result env \<noteq> 0
              then ((1, s1), ev1 @ [ReadModule, ALOGE ''Unable to read source module''])
              else if compile_result env \<noteq> 0
              then ((1, s1), ev1 @ [ReadModule, Compile, ALOGE ''Unable to compile.''])
              else ((0, s1), ev1 @ [ReadModule, Compile])))"

text \<open>\<^verbatim>\<open>RSScript::getCompilerErrorMessage\<close>; \<open>None\<close> is the null pointer.\<close>

definition getCompilerErrorMessage ::
    "environment \<Rightarrow> RSScript \<Rightarrow> string option \<times> RSScript" where
  "getCompilerErrorMessage env s =
     (if mStatus s \<noteq> StatusCompiled
      then (None, s\<lparr>mErrorCode := BCC_INVALID_OPERATION\<rparr>)
      else (compilerErrorMessage env, s))"

text \<open>
  The branch of \<open>writeCache\<close> taken when \<^verbatim>\<open>writeCacheFile\<close> returns false (lines
  404 to 420): truncate both files, close both, unlink both, logging an unlink that fails.
\<close>

definition writeCache_cleanup ::
    "environment \<Rightarrow> string \<Rightarrow> string \<Rightarrow> filesystem \<Rightarrow> filesystem \<times> event list" where
  "writeCache_cleanup env objPath infoPath fs =
     (let fs1 = OutputFile_truncate env objPath fs;
          fs2 = OutputFile_truncate env infoPath fs1;
          fs3 = unlink env objPath fs2;
          fs4 = unlink env infoPath fs3
      in (fs4,
          [FileTruncate objPath, FileTruncate infoPath, FileClose objPath, FileClose infoPath,
           Unlink objPath] @
          (if unlink_result env objPath \<noteq> 0
           then [ALOGE ''Unable to remove the invalid cache file: %s. (reason: %s)'']
           else []) @
          [Unlink infoPath] @
          (if unlink_result env infoPath \<noteq> 0
           then [ALOGE ''Unable to remove the invalid cache file: %s. (reason: %s)'']
           else [])))"

text \<open>
  The dependencies and the flag that \<open>writeCache\<close> hands to the writer (lines 379 to
  401), as events.
\<close>

definition writeCache_writer :: "environment \<Rightarrow> RSScript \<Rightarrow> event list" where
  "writeCache_writer env s =
     (if TARGET_BUILD env
      then [WriterAddDependency (pathLibBCC_SHA1 env) (sha1LibBCC_SHA1 env),
            WriterAddDependency (pathLibRS env) (sha1LibRS env)]
      else []) @
     map (\<lambda>source_dep. WriterAddDependency (mSourceName source_dep) (mSHA1 source_dep))
       (mSourceDependencies s) @
     (case mpExtSymbolLookupFn s of
        None \<Rightarrow> [WriterWriteCacheFile 0]
      | Some f \<Rightarrow>
          [SymbolLookup (mpExtSymbolLookupFnContext s) ''__isThreadable'',
           WriterWriteCacheFile (of_nat (f (mpExtSymbolLookupFnContext s) ''__isThreadable''))])"

text \<open>
  The second half of \<^verbatim>\<open>RSScript::writeCache\<close> (lines 363 to 421), under both locks:
  open the two files, run the writer, clean up when it fails.
\<close>

definition writeCache_write ::
    "environment \<Rightarrow> filesystem \<Rightarrow> string \<Rightarrow> string \<Rightarrow> RSScript
       \<Rightarrow> (int \<times> RSScript \<times> filesystem) \<times> event list" where
  "writeCache_write env fs objPath infoPath s =
     (let (objError, fs1) = OutputFile_open env fs objPath;
          (infoError, fs2) = OutputFile_open env fs1 infoPath
      in emit [OutputFileOpen objPath, OutputFileOpen infoPath]
           (if objError
            then ((1, s, fs2), [ALOGE ''Unable to open %s for writing! (%s)''])
            else if infoError
            then ((1, s, fs2), [ALOGE ''Unable to open %s for writing! (%s)''])
            else
              emit (writeCache_writer env s)
                (let fs3 = fs2(objPath \<mapsto> written_obj env, infoPath \<mapsto> written_info env)
                 in if \<not> writeCacheFile_result env
                    then (let (fs4, ev) = writeCache_cleanup env objPath infoPath fs3
                          in ((0, s, fs4), ev))
                    else ((0, s, fs3), []))))"

text \<open>\<^verbatim>\<open>RSScript::writeCache\<close> (lines 329 to 361, then the half above).\<close>

definition writeCache ::
    "environment \<Rightarrow> filesystem \<Rightarrow> RSScript
       \<Rightarrow> (int \<times> RSScript \<times> filesystem) \<times> event list" where
  "writeCache env fs s =
     (if mStatus s \<noteq> StatusCompiled then ((1, s, fs), [])
      else
        (let (msg, s1) = getCompilerErrorMessage env s
         in if msg = None then ((1, s1, fs), [])
            else if isCacheable env s1
            then
              (let objPath = getCachedObjectPath env s1;
                   infoPath = getCacheInfoPath env s1
               in emit [MutexInit kWriteLock objPath, MutexInit kWriteLock infoPath]
                    (let (objLocked, ev1) = acquire env kWriteLock objPath
                     in emit ev1
                          (if \<not> objLocked
                           then ((1, s1, fs),
                                 [ALOGE ''Unable to acquire the lock for %s! (%s)''])
                           else
                             (let (infoLocked, ev2) = acquire env kWriteLock infoPath
                              in emit ev2
                                   (if \<not> infoLocked
                                    then ((1, s1, fs),
                                          [ALOGE ''Unable to acquire the lock for %s! (%s)''])
                                    else writeCache_write env fs objPath infoPath s1)))))
            else ((0, s1, fs), [])))"

text \<open>
  The end of \<^verbatim>\<open>RSScript::prepareExecutable\<close> (lines 191 to 196), shared by the cache
  hit and by the compile path.
\<close>

definition prepareExecutable_finish ::
    "int \<Rightarrow> RSScript \<Rightarrow> filesystem \<Rightarrow> (int \<times> RSScript \<times> filesystem) \<times> event list" where
  "prepareExecutable_finish status s fs =
     ((status, s\<lparr>mObjectType := ObjectExecutable\<rparr>, fs),
      [RegisterObjectWithGDB (getELF s) (getELFSize s)])"

text \<open>\<^verbatim>\<open>RSScript::prepareExecutable\<close>; \<open>flags\<close> is not used by the source.\<close>

definition prepareExecutable ::
    "environment \<Rightarrow> filesystem \<Rightarrow> string option \<Rightarrow> string option \<Rightarrow> nat \<Rightarrow> RSScript
       \<Rightarrow> (int \<times> RSScript \<times> filesystem) \<times> event list" where
  "prepareExecutable env fs cacheDir cacheName flags s =
     (if mStatus s \<noteq> StatusUnknown
      then ((1, s\<lparr>mErrorCode := BCC_INVALID_OPERATION\<rparr>, fs),
            [ALOGE ''Invalid operation: %s''])
      else
        (case internalLoadCache env fs cacheDir cacheName False s of
           ((status, s1), ev1) \<Rightarrow>
             emit ev1
               (if status \<noteq> 0
                then
                  (case internalCompile env s1 of
                     ((status2, s2), ev2) \<Rightarrow>
                       emit ev2
                         (if status2 \<noteq> 0
                          then ((status2, snd (getCompilerErrorMessage env s2), fs),
                                [ALOGE ''LLVM error message: %s''])
                          else
                            (case writeCache env fs s2 of
                               ((status3, s3, fs3), ev3) \<Rightarrow>
                                 emit ev3
                                   (if status3 \<noteq> 0
                                    then ((status3, s3, fs3),
                                          [ALOGE ''Failed to write the cache for %s''])
                                    else prepareExecutable_finish status3 s3 fs3))))
                else prepareExecutable_finish status s1 fs)))"

subsection \<open>Observations on event lists\<close>

text \<open>The calls of \<^verbatim>\<open>lock()\<close> among the events.\<close>

fun isMutexLock :: "event \<Rightarrow> bool" where
  "isMutexLock (MutexLock k path granted) = True"
| "isMutexLock e = False"

text \<open>
  The lock calls of an event list are an initial part of: the object file's lock,
  granted, then the info file's lock. (A lock that is not granted ends the list.)
\<close>

definition object_before_info :: "lock_kind \<Rightarrow> string \<Rightarrow> string \<Rightarrow> event list \<Rightarrow> bool" where
  "object_before_info k objPath infoPath evs =
     (filter isMutexLock evs \<in>
        set [[],
             [MutexLock k objPath False],
             [MutexLock k objPath True],
             [MutexLock k objPath True, MutexLock k infoPath False],
             [MutexLock k objPath True, MutexLock k infoPath True]])"

text \<open>
  The events of the cache path: locks, the two cache files, the reader and the writer.
  The log, the compiler, the symbol lookup and the debugger registration are the others.
\<close>

fun isCacheAccess :: "event \<Rightarrow> bool" where
  "isCacheAccess (ALOGE msg) = False"
| "isCacheAccess (SymbolLookup ctx name) = False"
| "isCacheAccess NewScriptCompiled = False"
| "isCacheAccess CompiledRegisterSymbolCallback = False"
| "isCacheAccess ReadModule = False"
| "isCacheAccess Compile = False"
| "isCacheAccess (RegisterObjectWithGDB elf elfSize) = False"
| "isCacheAccess e = True"

subsection \<open>A concrete unit and environment\<close>

text \<open>
  An environment in which every collaborator succeeds, the cache property is unset and
  the info file decodes to a cache of the two library dependencies with the object slots
  3 and 7, of which the runtime can accommodate 3 only; and a freshly constructed unit,
  the same unit after a compile, and after a cache hit.
\<close>

definition example_env :: environment where
  "example_env =
     \<lparr>property_get = (\<lambda>key dflt. dflt),
      TARGET_BUILD = True,
      pathLibBCC_SHA1 = ''/system/lib/libbcc.so.sha1'',
      sha1LibBCC_SHA1 = [1],
      pathLibRS = ''/system/lib/libRS.so'',
      sha1LibRS = [2],
      cachedObjectPath = (\<lambda>dir name. dir @ name @ ''.o''),
      cacheInfoPath = (\<lambda>dir name. dir @ name @ ''.info''),
      mutex_hasError = (\<lambda>k path. False),
      mutex_lock = (\<lambda>k path. True),
      input_hasError = (\<lambda>path. False),
      output_hasError = (\<lambda>path. False),
      new_ScriptCompiled =
        Some \<lparr>compiled_ExportVarCount = 1, compiled_ExportFuncCount = 2,
              compiled_ExportForEachCount = 3, compiled_PragmaCount = 4,
              compiled_FuncCount = 5, compiled_ObjectSlotCount = 6,
              compiled_ELFSize = 2, compiled_ELF = Some [127, 69]\<rparr>,
      readModule_result = 0,
      compile_result = 0,
      compilerErrorMessage = Some [],
      writeCacheFile_result = True,
      written_obj = [127, 69],
      written_info = [9],
      truncate_ok = (\<lambda>path. True),
      unlink_result = (\<lambda>path. 0),
      decodeInfo =
        (\<lambda>data.
           \<lparr>ci_fileSizeOk = True, ci_headerOk = True, ci_machineIntTypeOk = True,
            ci_sectionsOk = True, ci_stringPoolOk = True,
            ci_dependencies =
              [(''/system/lib/libbcc.so.sha1'', [1]), (''/system/lib/libRS.so'', [2])],
            ci_objectSlots = [3, 7],
            ci_relocations = [],
            ci_script =
              \<lparr>cached_ExportVarCount = 1, cached_ExportFuncCount = 2,
               cached_ExportForEachCount = 3, cached_PragmaCount = 4,
               cached_FuncCount = 5, cached_ObjectSlotCount = 2,
               cached_ELFSize = 2, cached_ELF = Some [127, 69],
               cached_isLibRSThreadable = True\<rparr>\<rparr>),
      slot_available = (\<lambda>slot. slot < 7)\<rparr>"

definition example_unit :: RSScript where
  "example_unit =
     \<lparr>mErrorCode = BCC_NO_ERROR, mStatus = StatusUnknown, mObjectType = ObjectUnknown,
      mCompiled = None, mCached = None, mIsContextSlotNotAvail = False,
      mCacheDir = [], mCacheName = [],
      mpExtSymbolLookupFn = None, mpExtSymbolLookupFnContext = 0,
      mSourceDependencies = []\<rparr>"


definition example_compiled_unit :: RSScript where
  "example_compiled_unit =
     example_unit\<lparr>mStatus := StatusCompiled, mCompiled := new_ScriptCompiled example_env\<rparr>"

definition example_cached_unit :: RSScript where
  "example_cached_unit =
     example_unit\<lparr>mStatus := StatusCached,
                  mCached := Some (ci_script (decodeInfo example_env []))\<rparr>"

text \<open>
  An open input file; an environment whose cache records the single dependency \<open>a\<close>
  and no object slot; and the environment above with a runtime that can accommodate
  every slot.
\<close>

definition example_file :: InputFile where
  "example_file = \<lparr>in_hasError = False, in_data = []\<rparr>"

definition example_env_one_dependency :: environment where
  "example_env_one_dependency =
     example_env\<lparr>decodeInfo := \<lambda>data.
       (decodeInfo example_env data)\<lparr>ci_dependencies := [(''a'', [1])], ci_objectSlots := []\<rparr>\<rparr>"

definition example_env_all_slots :: environment where
  "example_env_all_slots = example_env\<lparr>slot_available := \<lambda>slot. True\<rparr>"

text \<open>A cache directory that holds the two companion files of the unit \<open>n\<close>.\<close>

definition example_fs :: filesystem where
  "example_fs = [''/d/n.o'' \<mapsto> [127, 69], ''/d/n.info'' \<mapsto> [9]]"

text \<open>
  The environment above with write locks that are never granted, and with a writer that
  fails; and the compiled unit with the cache directory and name of the unit \<open>n\<close>.
\<close>

definition example_env_no_write_lock :: environment where
  "example_env_no_write_lock = example_env\<lparr>mutex_lock := \<lambda>k path. k = kReadLock\<rparr>"

definition example_env_writer_fails :: environment where
  "example_env_writer_fails = example_env\<lparr>writeCacheFile_result := False\<rparr>"

definition example_compiled_unit_with_path :: RSScript where
  "example_compiled_unit_with_path =
     example_compiled_unit\<lparr>mCacheDir := ''/d/'', mCacheName := ''n''\<rparr>"

text \<open>
  The environment in which the writer fails and no unlink succeeds, the same with
  truncations that fail too; and the compiled unit above after \<open>resetState\<close>.
\<close>

definition example_env_unlink_fails :: environment where
  "example_env_unlink_fails =
     example_env\<lparr>writeCacheFile_result := False, unlink_result := \<lambda>path. - 1\<rparr>"

definition example_env_cleanup_fails :: environment where
  "example_env_cleanup_fails =
     example_env_unlink_fails\<lparr>truncate_ok := \<lambda>path. False\<rparr>"


section \<open>Properties\<close>

subsection \<open>The stages of the two cache paths\<close>

lemma fst_emit [simp]: "fst (emit ev r) = fst r"
  by (simp add: emit_def)

lemma snd_emit [simp]: "snd (emit ev r) = ev @ snd r"
  by (simp add: emit_def)

lemma acquire_cases:
  "acquire env k p = (False, []) \<or>
   acquire env k p = (False, [MutexLock k p False]) \<or>
   acquire env k p = (True, [MutexLock k p True])"
  by (simp add: acquire_def)

lemma read_no_locks [simp]:
  "filter isMutexLock (snd (internalLoadCache_read env fs checkOnly objPath infoPath s)) = []"
  by (simp add: internalLoadCache_read_def Let_def split: prod.split option.split)

lemma read_paths [simp]:
  "mCacheDir (snd (fst (internalLoadCache_read env fs checkOnly objPath infoPath s))) = mCacheDir s"
  "mCacheName (snd (fst (internalLoadCache_read env fs checkOnly objPath infoPath s))) = mCacheName s"
  by (simp_all add: internalLoadCache_read_def Let_def split: prod.split option.split)

lemma read_events [simp]:
  "snd (internalLoadCache_read env fs checkOnly objPath infoPath s) \<noteq> []"
  by (simp add: internalLoadCache_read_def Let_def)

lemma writer_no_locks [simp]: "filter isMutexLock (writeCache_writer env s) = []"
  by (simp add: writeCache_writer_def split: option.split)

lemma cleanup_no_locks [simp]:
  "filter isMutexLock (snd (writeCache_cleanup env objPath infoPath fs)) = []"
  by (simp add: writeCache_cleanup_def Let_def)

lemma write_no_locks [simp]:
  "filter isMutexLock (snd (writeCache_write env fs objPath infoPath s)) = []"
  by (simp add: writeCache_write_def Let_def split_def)

lemma write_unit [simp]:
  "fst (snd (fst (writeCache_write env fs objPath infoPath s))) = s"
  by (simp add: writeCache_write_def Let_def split_def)

lemma write_events [simp]:
  "snd (writeCache_write env fs objPath infoPath s) \<noteq> []"
  by (simp add: writeCache_write_def Let_def split_def)


lemma internalLoadCache_body:
  assumes "s1 = s\<lparr>mCacheName := name,
                    mCacheDir := (if dir \<noteq> [] \<and> last dir \<noteq> CHR ''/''
                                  then dir @ ''/'' else dir)\<rparr>"
    and "objPath = getCachedObjectPath env s1"
    and "infoPath = getCacheInfoPath env s1"
  shows "internalLoadCache env fs (Some dir) (Some name) checkOnly s =
      (if \<not> isCacheable env s1 then ((1, s1), [])
       else emit [MutexInit kReadLock objPath, MutexInit kReadLock infoPath]
          (let (objLocked, ev1) = acquire env kReadLock objPath
           in emit ev1
                (if \<not> objLocked
                 then ((1, s1), [ALOGE ''Unable to acquire the lock for %s! (%s)''])
                 else
                   (let (infoLocked, ev2) = acquire env kReadLock infoPath
                    in emit ev2
                         (if \<not> infoLocked
                          then ((1, s1),
                                [ALOGE ''Unable to acquire the lock for %s! (%s)''])
                          else internalLoadCache_read env fs checkOnly
                                 objPath infoPath s1)))))"
  unfolding internalLoadCache_def assms by (simp add: Let_def)

lemma internalLoadCache_null:
  "cacheDir = None \<or> cacheName = None \<Longrightarrow>
   internalLoadCache env fs cacheDir cacheName checkOnly s = ((1, s), [])"
  by (cases cacheDir; cases cacheName) (simp_all add: internalLoadCache_def)

lemma writeCache_body:
  assumes "objPath = getCachedObjectPath env s"
    and "infoPath = getCacheInfoPath env s"
  shows "writeCache env fs s =
     (if mStatus s \<noteq> StatusCompiled then ((1, s, fs), [])
      else if compilerErrorMessage env = None then ((1, s, fs), [])
      else if isCacheable env s
      then emit [MutexInit kWriteLock objPath, MutexInit kWriteLock infoPath]
                    (let (objLocked, ev1) = acquire env kWriteLock objPath
                     in emit ev1
                          (if \<not> objLocked
                           then ((1, s, fs),
                                 [ALOGE ''Unable to acquire the lock for %s! (%s)''])
                           else
                             (let (infoLocked, ev2) = acquire env kWriteLock infoPath
                              in emit ev2
                                   (if \<not> infoLocked
                                    then ((1, s, fs),
                                          [ALOGE ''Unable to acquire the lock for %s! (%s)''])
                                    else writeCache_write env fs objPath infoPath s))))
      else ((0, s, fs), []))"
  unfolding writeCache_def assms getCompilerErrorMessage_def
  by (simp add: Let_def del: not_None_eq)


text \<open>Unfolding the model on the concrete unit and environment.\<close>

lemmas eval_defs =
  prepareExecutable_def prepareExecutable_finish_def internalLoadCache_def
  internalLoadCache_read_def internalCompile_def getCompilerErrorMessage_def writeCache_def
  writeCache_write_def writeCache_writer_def writeCache_cleanup_def emit_def acquire_def
  isCacheable_def getBooleanProp_def getCachedObjectPath_def getCacheInfoPath_def
  InputFile_open_def OutputFile_open_def OutputFile_truncate_def unlink_def
  loadCacheReader_def MCCacheReader_new_def addDependency_def isContextSlotNotAvail_def
  reader_registerSymbolCallback_def checkCacheFile_def readCacheFile_def checkDependency_def
  checkContext_def relocate_def getELF_def getELFSize_def
  example_env_def example_unit_def example_compiled_unit_def example_cached_unit_def

subsection \<open>State checks\<close>

text \<open>
  Claim C3. On a unit that is not in \<open>Unknown\<close> state \<open>prepareExecutable\<close> returns 1,
  sets the error code to \<open>BCC_INVALID_OPERATION\<close> and does nothing else: every other
  member (state and object type among them) and the files are as before, and the only
  call made is the log call; no lock, no file, no reader, no compiler.
\<close>

theorem prepareExecutable_invalid_operation:
  assumes "mStatus s \<noteq> StatusUnknown"
  shows "prepareExecutable env fs cacheDir cacheName flags s =
           ((1, s\<lparr>mErrorCode := BCC_INVALID_OPERATION\<rparr>, fs),
            [ALOGE ''Invalid operation: %s''])"
  using assms by (simp add: prepareExecutable_def)

theorem prepareExecutable_invalid_operation_witness:
  "mStatus example_compiled_unit \<noteq> StatusUnknown \<and>
   prepareExecutable example_env Map.empty (Some ''/d'') (Some ''n'') 0 example_compiled_unit =
     ((1, example_compiled_unit\<lparr>mErrorCode := BCC_INVALID_OPERATION\<rparr>, Map.empty),
      [ALOGE ''Invalid operation: %s''])"
proof -
  have h: "mStatus example_compiled_unit \<noteq> StatusUnknown"
    by (simp add: example_compiled_unit_def)
  from prepareExecutable_invalid_operation [OF h] h show ?thesis by simp
qed

text \<open>
  Claim C4. Whatever the state of the unit, \<open>resetState\<close> (and \<open>doReset\<close>, which
  calls it and returns true) leaves it in \<open>Unknown\<close> state with no error, object type
  \<open>Unknown\<close>, the context-slot flag lowered and no source-dependency record.
\<close>

theorem resetState_wipes:
  "mStatus (resetState s) = StatusUnknown \<and>
   mErrorCode (resetState s) = BCC_NO_ERROR \<and>
   mObjectType (resetState s) = ObjectUnknown \<and>
   mIsContextSlotNotAvail (resetState s) = False \<and>
   mSourceDependencies (resetState s) = [] \<and>
   doReset s = (True, resetState s)"
  by (simp add: resetState_def doReset_def)

text \<open>
  Claim C9. In \<open>Unknown\<close> state the six count accessors and the native-code size
  return 0 and the native-code pointer is null; in \<open>Compiled\<close> state (with its
  \<open>mCompiled\<close>) and in \<open>Cached\<close> state (with its \<open>mCached\<close>) each accessor
  returns what the artifact's accessor of the same name returns.
\<close>

theorem accessors_by_state:
  "(mStatus s = StatusUnknown \<longrightarrow>
      getExportVarCount s = Some 0 \<and> getExportFuncCount s = Some 0 \<and>
      getExportForEachCount s = Some 0 \<and> getPragmaCount s = Some 0 \<and>
      getFuncCount s = Some 0 \<and> getObjectSlotCount s = Some 0 \<and>
      getELFSize s = Some 0 \<and> getELF s = Some None) \<and>
   (mStatus s = StatusCompiled \<and> mCompiled s = Some c \<longrightarrow>
      getExportVarCount s = Some (compiled_ExportVarCount c) \<and>
      getExportFuncCount s = Some (compiled_ExportFuncCount c) \<and>
      getExportForEachCount s = Some (compiled_ExportForEachCount c) \<and>
      getPragmaCount s = Some (compiled_PragmaCount c) \<and>
      getFuncCount s = Some (compiled_FuncCount c) \<and>
      getObjectSlotCount s = Some (compiled_ObjectSlotCount c) \<and>
      getELFSize s = Some (compiled_ELFSize c) \<and>
      getELF s = Some (compiled_ELF c)) \<and>
   (mStatus s = StatusCached \<and> mCached s = Some k \<longrightarrow>
      getExportVarCount s = Some (cached_ExportVarCount k) \<and>
      getExportFuncCount s = Some (cached_ExportFuncCount k) \<and>
      getExportForEachCount s = Some (cached_ExportForEachCount k) \<and>
      getPragmaCount s = Some (cached_PragmaCount k) \<and>
      getFuncCount s = Some (cached_FuncCount k) \<and>
      getObjectSlotCount s = Some (cached_ObjectSlotCount k) \<and>
      getELFSize s = Some (cached_ELFSize k) \<and>
      getELF s = Some (cached_ELF k))"
  by (simp add: getExportVarCount_def getExportFuncCount_def getExportForEachCount_def
      getPragmaCount_def getFuncCount_def getObjectSlotCount_def getELFSize_def getELF_def)

theorem accessors_by_state_witness:
  "mStatus example_unit = StatusUnknown \<and>
   getExportVarCount example_unit = Some 0 \<and> getExportFuncCount example_unit = Some 0 \<and>
   getExportForEachCount example_unit = Some 0 \<and> getPragmaCount example_unit = Some 0 \<and>
   getFuncCount example_unit = Some 0 \<and> getObjectSlotCount example_unit = Some 0 \<and>
   getELFSize example_unit = Some 0 \<and> getELF example_unit = Some None \<and>
   mStatus example_compiled_unit = StatusCompiled \<and>
   getExportVarCount example_compiled_unit = Some 1 \<and>
   getExportFuncCount example_compiled_unit = Some 2 \<and>
   getExportForEachCount example_compiled_unit = Some 3 \<and>
   getPragmaCount example_compiled_unit = Some 4 \<and>
   getFuncCount example_compiled_unit = Some 5 \<and>
   getObjectSlotCount example_compiled_unit = Some 6 \<and>
   getELFSize example_compiled_unit = Some 2 \<and>
   getELF example_compiled_unit = Some (Some [127, 69]) \<and>
   mStatus example_cached_unit = StatusCached \<and>
   getExportVarCount example_cached_unit = Some 1 \<and>
   getObjectSlotCount example_cached_unit = Some 2 \<and>
   getELFSize example_cached_unit = Some 2 \<and>
   getELF example_cached_unit = Some (Some [127, 69])"
  using accessors_by_state [of example_unit]
    accessors_by_state [of example_compiled_unit "the (new_ScriptCompiled example_env)"]
    accessors_by_state [of example_cached_unit _ "ci_script (decodeInfo example_env [])"]
  by (simp add: example_compiled_unit_def example_cached_unit_def example_unit_def example_env_def)

text \<open>
  Claim C10. \<open>registerSymbolCallback\<close> stores the supplied function and context in
  every case; when the unit is not in \<open>Unknown\<close> state it also sets
  \<open>BCC_INVALID_OPERATION\<close> and returns 1, so the unit it returns with the error is
  the old unit with three members overwritten.
\<close>

theorem registerSymbolCallback_overwrites:
  "(case registerSymbolCallback pFn pContext s of
      ((status, s'), log) \<Rightarrow>
        mpExtSymbolLookupFn s' = pFn \<and> mpExtSymbolLookupFnContext s' = pContext \<and>
        (mStatus s \<noteq> StatusUnknown \<longrightarrow>
           status = 1 \<and> mErrorCode s' = BCC_INVALID_OPERATION \<and>
           s' = s\<lparr>mpExtSymbolLookupFn := pFn, mpExtSymbolLookupFnContext := pContext,
                  mErrorCode := BCC_INVALID_OPERATION\<rparr>))"
  by (simp add: registerSymbolCallback_def Let_def)

theorem registerSymbolCallback_overwrites_witness:
  "mStatus example_compiled_unit \<noteq> StatusUnknown \<and>
   fst (fst (registerSymbolCallback (Some (\<lambda>ctx name. 5)) 9 example_compiled_unit)) = 1 \<and>
   mErrorCode (snd (fst (registerSymbolCallback (Some (\<lambda>ctx name. 5)) 9 example_compiled_unit)))
     = BCC_INVALID_OPERATION \<and>
   mpExtSymbolLookupFn example_compiled_unit = None \<and>
   (\<exists>f. mpExtSymbolLookupFn
      (snd (fst (registerSymbolCallback (Some (\<lambda>ctx name. 5)) 9 example_compiled_unit)))
     = Some f \<and> f 0 ''x'' = 5) \<and>
   mpExtSymbolLookupFnContext
      (snd (fst (registerSymbolCallback (Some (\<lambda>ctx name. 5)) 9 example_compiled_unit))) = 9"
  using registerSymbolCallback_overwrites [of "Some (\<lambda>ctx name. 5)" 9 example_compiled_unit]
  by (simp add: example_compiled_unit_def example_unit_def split: prod.splits)

subsection \<open>The cache path\<close>

text \<open>
  Claim C7. On the read path and on the write path alike, the calls of \<open>lock()\<close> are:
  first the object file's mutex, and the info file's mutex only after the object file's
  lock was granted; the read path takes read locks, the write path write locks.
\<close>

theorem lock_order:
  "(case internalLoadCache env fs cacheDir cacheName checkOnly s of
      ((status, s'), evs) \<Rightarrow>
        object_before_info kReadLock (getCachedObjectPath env s') (getCacheInfoPath env s') evs) \<and>
   (case writeCache env fs s of
      ((status, s', fs'), evs) \<Rightarrow>
        object_before_info kWriteLock (getCachedObjectPath env s') (getCacheInfoPath env s') evs)"
proof
  show "case internalLoadCache env fs cacheDir cacheName checkOnly s of
      ((status, s'), evs) \<Rightarrow>
        object_before_info kReadLock (getCachedObjectPath env s') (getCacheInfoPath env s') evs"
  proof (cases "cacheDir = None \<or> cacheName = None")
    case True
    then show ?thesis
      by (simp add: internalLoadCache_null object_before_info_def)
  next
    case False
    then obtain dir name where args: "cacheDir = Some dir" "cacheName = Some name" by auto
    define s1 where "s1 = s\<lparr>mCacheName := name,
                      mCacheDir := (if dir \<noteq> [] \<and> last dir \<noteq> CHR ''/''
                                    then dir @ ''/'' else dir)\<rparr>"
    define objPath where "objPath = getCachedObjectPath env s1"
    define infoPath where "infoPath = getCacheInfoPath env s1"
    have paths: "cachedObjectPath env (mCacheDir s1) (mCacheName s1) = objPath"
      "cacheInfoPath env (mCacheDir s1) (mCacheName s1) = infoPath"
      by (simp_all add: objPath_def infoPath_def getCachedObjectPath_def getCacheInfoPath_def)
    show ?thesis
      using acquire_cases [of env kReadLock objPath] acquire_cases [of env kReadLock infoPath]
      unfolding args internalLoadCache_body [OF s1_def objPath_def infoPath_def]
      by (auto simp add: object_before_info_def getCachedObjectPath_def getCacheInfoPath_def
            paths split_def)
  qed
next
  show "case writeCache env fs s of
      ((status, s', fs'), evs) \<Rightarrow>
        object_before_info kWriteLock (getCachedObjectPath env s') (getCacheInfoPath env s') evs"
  proof -
    define objPath where "objPath = getCachedObjectPath env s"
    define infoPath where "infoPath = getCacheInfoPath env s"
    have paths: "cachedObjectPath env (mCacheDir s) (mCacheName s) = objPath"
      "cacheInfoPath env (mCacheDir s) (mCacheName s) = infoPath"
      by (simp_all add: objPath_def infoPath_def getCachedObjectPath_def getCacheInfoPath_def)
    show ?thesis
      using acquire_cases [of env kWriteLock objPath] acquire_cases [of env kWriteLock infoPath]
      unfolding writeCache_body [OF objPath_def infoPath_def]
      by (auto simp add: object_before_info_def getCachedObjectPath_def getCacheInfoPath_def
            paths split_def)
  qed
qed

theorem lock_order_witness:
  "filter isMutexLock
     (snd (internalLoadCache example_env Map.empty (Some ''/d'') (Some ''n'') False example_unit))
     = [MutexLock kReadLock ''/d/n.o'' True, MutexLock kReadLock ''/d/n.info'' True] \<and>
   filter isMutexLock
     (snd (writeCache example_env Map.empty
             (example_compiled_unit\<lparr>mCacheDir := ''/d/'', mCacheName := ''n''\<rparr>)))
     = [MutexLock kWriteLock ''/d/n.o'' True, MutexLock kWriteLock ''/d/n.info'' True] \<and>
   filter isMutexLock
     (snd (internalLoadCache (example_env\<lparr>mutex_lock := \<lambda>k path. False\<rparr>) Map.empty
             (Some ''/d'') (Some ''n'') False example_unit))
     = [MutexLock kReadLock ''/d/n.o'' False]"
  using lock_order [of example_env Map.empty "Some ''/d''" "Some ''n''" False example_unit]
    lock_order [of example_env Map.empty None None False
      "example_compiled_unit\<lparr>mCacheDir := ''/d/'', mCacheName := ''n''\<rparr>"]
    lock_order [of "example_env\<lparr>mutex_lock := \<lambda>k path. False\<rparr>" Map.empty
      "Some ''/d''" "Some ''n''" False example_unit]
  by (simp add: eval_defs Let_def)




lemma internalCompile_no_access [simp]:
  "filter isCacheAccess (snd (internalCompile env s)) = []"
  by (simp add: internalCompile_def Let_def split: option.split)




lemma finish_no_access [simp]:
  "filter isCacheAccess (snd (prepareExecutable_finish status s fs)) = []"
  by (simp add: prepareExecutable_finish_def)








subsection \<open>The dependency ledger of the reader\<close>

lemma addDependencies_Nil [simp]: "addDependencies [] r = r"
  by (simp add: addDependencies_def)

lemma addDependencies_Cons [simp]:
  "addDependencies ((n, d) # xs) r = addDependencies xs (addDependency n d r)"
  by (simp add: addDependencies_def)

lemma addDependencies_lookup:
  "Mapping.lookup (mDependencies (addDependencies xs r)) n =
     (case Mapping.lookup (mDependencies r) n of
        Some d \<Rightarrow> Some d
      | None \<Rightarrow> map_of xs n)"
proof (induction xs arbitrary: r)
  case Nil
  show ?case by (simp split: option.split)
next
  case (Cons x xs)
  obtain m e where x: "x = (m, e)" by (cases x)
  show ?case
    unfolding x addDependencies_Cons Cons.IH
    by (simp add: addDependency_def Mapping.lookup_update' split: option.split)
qed

lemma addDependencies_other:
  "reader_mIsContextSlotNotAvail (addDependencies xs r) = reader_mIsContextSlotNotAvail r"
  "mpSymbolLookupFn (addDependencies xs r) = mpSymbolLookupFn r"
  "mpSymbolLookupContext (addDependencies xs r) = mpSymbolLookupContext r"
  by (induction xs arbitrary: r) (auto simp add: addDependency_def)

lemma map_of_functional:
  assumes "set xs = set ys"
    and "\<forall>(n, d) \<in> set xs. \<forall>(n', d') \<in> set xs. n = n' \<longrightarrow> d = d'"
  shows "map_of xs = map_of ys"
proof
  fix n
  show "map_of xs n = map_of ys n"
  proof (cases "map_of xs n")
    case None
    then have "n \<notin> fst ` set xs" by (simp add: map_of_eq_None_iff)
    with assms(1) have "n \<notin> fst ` set ys" by simp
    then have "map_of ys n = None" by (simp add: map_of_eq_None_iff)
    with None show ?thesis by simp
  next
    case (Some d)
    then have in_xs: "(n, d) \<in> set xs" by (rule map_of_SomeD)
    then have "n \<in> fst ` set ys" using assms(1) by force
    then obtain d' where d': "map_of ys n = Some d'"
      by (cases "map_of ys n") (auto simp add: map_of_eq_None_iff)
    then have "(n, d') \<in> set xs" using assms(1) by (auto dest: map_of_SomeD)
    with in_xs assms(2) have "d' = d" by blast
    with Some d' show ?thesis by simp
  qed
qed

lemma addDependencies_order:
  assumes "set xs = set ys"
    and "\<forall>(n, d) \<in> set xs. \<forall>(n', d') \<in> set xs. n = n' \<longrightarrow> d = d'"
  shows "addDependencies xs r = addDependencies ys r"
proof -
  have eq: "map_of xs n = map_of ys n" for n
    using map_of_functional [OF assms] by simp
  have "mDependencies (addDependencies xs r) = mDependencies (addDependencies ys r)"
    by (rule mapping_eqI) (simp add: addDependencies_lookup eq split: option.split)
  then show ?thesis
    by (simp add: MCCacheReader.equality addDependencies_other)
qed

lemma checkDependency_digest:
  assumes "(n, d) \<in> set (ci_dependencies ci)"
    and "Mapping.lookup (mDependencies r) n \<noteq> Some d"
  shows "\<not> checkDependency r ci"
  using assms by (auto simp add: checkDependency_def list_all_iff)

lemma checkCacheFile_miss:
  "\<not> checkDependency r (decodeInfo env (in_data infoFile)) \<Longrightarrow>
   fst (checkCacheFile env objFile infoFile r) = False"
  by (simp add: checkCacheFile_def Let_def)

lemma readCacheFile_miss:
  "fst (checkCacheFile env objFile infoFile r) = False \<Longrightarrow>
   fst (readCacheFile env objFile infoFile r) = None"
  by (simp add: readCacheFile_def Let_def split_def)

lemma map_of_update_digest:
  assumes "distinct (map fst xs)" and "i < length xs"
  shows "map_of (xs[i := (fst (xs ! i), sha)]) (fst (xs ! i)) = Some sha"
proof -
  have "map fst (xs[i := (fst (xs ! i), sha)]) = map fst xs"
    using assms(2) by (simp add: map_update list_update_same_conv)
  then have "distinct (map fst (xs[i := (fst (xs ! i), sha)]))"
    using assms(1) by simp
  moreover have "(fst (xs ! i), sha) \<in> set (xs[i := (fst (xs ! i), sha)])"
    using assms(2) by (simp add: set_update_memI)
  ultimately show ?thesis by (rule map_of_is_SomeI)
qed

lemma digest_change_miss:
  assumes "distinct (map fst xs)"
    and "set (ci_dependencies (decodeInfo env (in_data infoFile))) = set xs"
    and "i < length xs"
    and "sha \<noteq> snd (xs ! i)"
    and "Mapping.lookup (mDependencies r) (fst (xs ! i)) = None"
  shows "fst (checkCacheFile env objFile infoFile
                (addDependencies (xs[i := (fst (xs ! i), sha)]) r)) = False"
proof -
  have "(fst (xs ! i), snd (xs ! i)) \<in> set (ci_dependencies (decodeInfo env (in_data infoFile)))"
    using assms(2,3) by simp
  moreover have "Mapping.lookup (mDependencies (addDependencies (xs[i := (fst (xs ! i), sha)]) r))
                   (fst (xs ! i)) \<noteq> Some (snd (xs ! i))"
    using assms(4) by (simp add: addDependencies_lookup assms(5) map_of_update_digest [OF assms(1,3)])
  ultimately have "\<not> checkDependency (addDependencies (xs[i := (fst (xs ! i), sha)]) r)
                       (decodeInfo env (in_data infoFile))"
    by (rule checkDependency_digest)
  then show ?thesis by (rule checkCacheFile_miss)
qed

text \<open>
  Claim C6, as stated, fails: the two sequences below insert the same set of pairs, the
  name \<open>a\<close> with the digests 1 and 2, in the two orders. The map keeps the digest
  inserted first, so against a cache that records \<open>a\<close> with digest 1 the first
  reader hits and the second misses.
\<close>

theorem dependency_order_counterexample:
  "set [(''a'', [1::8 word]), (''a'', [2])] = set [(''a'', [2]), (''a'', [1::8 word])] \<and>
   fst (checkCacheFile example_env_one_dependency example_file example_file
          (addDependencies [(''a'', [1]), (''a'', [2])] MCCacheReader_new)) = True \<and>
   fst (checkCacheFile example_env_one_dependency example_file example_file
          (addDependencies [(''a'', [2]), (''a'', [1])] MCCacheReader_new)) = False \<and>
   fst (readCacheFile example_env_one_dependency example_file example_file
          (addDependencies [(''a'', [1]), (''a'', [2])] MCCacheReader_new))
     = Some (ci_script (decodeInfo example_env [])) \<and>
   fst (readCacheFile example_env_one_dependency example_file example_file
          (addDependencies [(''a'', [2]), (''a'', [1])] MCCacheReader_new)) = None"
  by code_simp


text \<open>
  Claim C6, amended. When no name is paired with two different digests, two sequences of
  \<open>addDependency\<close> calls that insert the same set of pairs leave the same reader,
  so \<open>checkCacheFile\<close> and \<open>readCacheFile\<close> answer the same. When the names of a
  ledger are distinct and none is in the reader yet, and the cache records that ledger,
  then changing the digest of any one entry before the pairs are handed to the reader
  makes \<open>checkCacheFile\<close> answer false and \<open>readCacheFile\<close> return no artifact.
\<close>

theorem dependency_order_independent:
  "(set xs = set ys \<and> (\<forall>(n, d) \<in> set xs. \<forall>(n', d') \<in> set xs. n = n' \<longrightarrow> d = d') \<longrightarrow>
      addDependencies xs r = addDependencies ys r \<and>
      checkCacheFile env objFile infoFile (addDependencies xs r) =
        checkCacheFile env objFile infoFile (addDependencies ys r) \<and>
      readCacheFile env objFile infoFile (addDependencies xs r) =
        readCacheFile env objFile infoFile (addDependencies ys r)) \<and>
   (distinct (map fst xs) \<and>
    set (ci_dependencies (decodeInfo env (in_data infoFile))) = set xs \<and>
    i < length xs \<and> sha \<noteq> snd (xs ! i) \<and>
    Mapping.lookup (mDependencies r) (fst (xs ! i)) = None \<longrightarrow>
      fst (checkCacheFile env objFile infoFile
             (addDependencies (xs[i := (fst (xs ! i), sha)]) r)) = False \<and>
      fst (readCacheFile env objFile infoFile
             (addDependencies (xs[i := (fst (xs ! i), sha)]) r)) = None)"
proof (intro conjI impI)
  assume a: "set xs = set ys \<and> (\<forall>(n, d) \<in> set xs. \<forall>(n', d') \<in> set xs. n = n' \<longrightarrow> d = d')"
  then show e: "addDependencies xs r = addDependencies ys r"
    using addDependencies_order [of xs ys r] by blast
  show "checkCacheFile env objFile infoFile (addDependencies xs r) =
        checkCacheFile env objFile infoFile (addDependencies ys r)"
    by (simp only: e)
  show "readCacheFile env objFile infoFile (addDependencies xs r) =
        readCacheFile env objFile infoFile (addDependencies ys r)"
    by (simp only: e)
next
  assume b: "distinct (map fst xs) \<and>
    set (ci_dependencies (decodeInfo env (in_data infoFile))) = set xs \<and>
    i < length xs \<and> sha \<noteq> snd (xs ! i) \<and>
    Mapping.lookup (mDependencies r) (fst (xs ! i)) = None"
  then show c: "fst (checkCacheFile env objFile infoFile
             (addDependencies (xs[i := (fst (xs ! i), sha)]) r)) = False"
    using digest_change_miss [of xs env infoFile i sha r objFile] by blast
  then show "fst (readCacheFile env objFile infoFile
             (addDependencies (xs[i := (fst (xs ! i), sha)]) r)) = None"
    by (rule readCacheFile_miss)
qed

theorem dependency_order_independent_witness:
  "addDependencies [(''/system/lib/libbcc.so.sha1'', [1]), (''/system/lib/libRS.so'', [2])]
     MCCacheReader_new =
   addDependencies [(''/system/lib/libRS.so'', [2]), (''/system/lib/libbcc.so.sha1'', [1])]
     MCCacheReader_new \<and>
   fst (checkCacheFile example_env_all_slots example_file example_file
          (addDependencies
             [(''/system/lib/libRS.so'', [2]), (''/system/lib/libbcc.so.sha1'', [1])]
             MCCacheReader_new)) = True \<and>
   fst (checkCacheFile example_env_all_slots example_file example_file
          (addDependencies
             [(''/system/lib/libbcc.so.sha1'', [1]), (''/system/lib/libRS.so'', [3])]
             MCCacheReader_new)) = False \<and>
   fst (readCacheFile example_env_all_slots example_file example_file
          (addDependencies
             [(''/system/lib/libbcc.so.sha1'', [1]), (''/system/lib/libRS.so'', [3])]
             MCCacheReader_new)) = None"
proof -
  let ?xs = "[(''/system/lib/libbcc.so.sha1'', [1::8 word]), (''/system/lib/libRS.so'', [2])]"
  let ?ys = "[(''/system/lib/libRS.so'', [2::8 word]), (''/system/lib/libbcc.so.sha1'', [1])]"
  have h1: "set ?xs = set ?ys \<and> (\<forall>(n, d) \<in> set ?xs. \<forall>(n', d') \<in> set ?xs. n = n' \<longrightarrow> d = d')"
    by auto
  have h2: "distinct (map fst ?xs) \<and>
    set (ci_dependencies (decodeInfo example_env_all_slots (in_data example_file))) = set ?xs \<and>
    1 < length ?xs \<and> [3] \<noteq> snd (?xs ! 1) \<and>
    Mapping.lookup (mDependencies MCCacheReader_new) (fst (?xs ! 1)) = None"
    by (simp add: example_env_all_slots_def example_env_def MCCacheReader_new_def)
  have hit: "fst (checkCacheFile example_env_all_slots example_file example_file
          (addDependencies ?ys MCCacheReader_new)) = True"
    by code_simp
  from dependency_order_independent
         [of ?xs ?ys MCCacheReader_new example_env_all_slots example_file example_file 1 "[3]"]
       h1 h2 hit
  show ?thesis by simp
qed

subsection \<open>The context-slot flag\<close>

lemma checkCacheFile_context:
  assumes "ci_fileSizeOk (decodeInfo env (in_data infoFile))"
    and "ci_headerOk (decodeInfo env (in_data infoFile))"
    and "ci_machineIntTypeOk (decodeInfo env (in_data infoFile))"
    and "ci_sectionsOk (decodeInfo env (in_data infoFile))"
    and "ci_stringPoolOk (decodeInfo env (in_data infoFile))"
    and "checkDependency r (decodeInfo env (in_data infoFile))"
    and "\<not> checkContext env (decodeInfo env (in_data infoFile))"
  shows "checkCacheFile env objFile infoFile r =
           (False, r\<lparr>reader_mIsContextSlotNotAvail := True\<rparr>)"
  using assms by (simp add: checkCacheFile_def Let_def)

lemma checkCacheFile_flag_sticky:
  "reader_mIsContextSlotNotAvail r \<Longrightarrow>
   reader_mIsContextSlotNotAvail (snd (checkCacheFile env objFile infoFile r))"
  by (simp add: checkCacheFile_def Let_def)

lemma checkCacheFile_flag_raised:
  assumes "\<not> reader_mIsContextSlotNotAvail r"
  shows "reader_mIsContextSlotNotAvail (snd (checkCacheFile env objFile infoFile r)) \<longleftrightarrow>
           ci_fileSizeOk (decodeInfo env (in_data infoFile)) \<and>
           ci_headerOk (decodeInfo env (in_data infoFile)) \<and>
           ci_machineIntTypeOk (decodeInfo env (in_data infoFile)) \<and>
           ci_sectionsOk (decodeInfo env (in_data infoFile)) \<and>
           ci_stringPoolOk (decodeInfo env (in_data infoFile)) \<and>
           checkDependency r (decodeInfo env (in_data infoFile)) \<and>
           \<not> checkContext env (decodeInfo env (in_data infoFile))"
  using assms by (simp add: checkCacheFile_def Let_def)

lemma readCacheFile_reader:
  "snd (readCacheFile env objFile infoFile r) = snd (checkCacheFile env objFile infoFile r)"
  by (simp add: readCacheFile_def Let_def split_def)

lemma readCacheFile_invalid:
  "\<not> fst (checkCacheFile env objFile infoFile r) \<Longrightarrow>
   fst (readCacheFile env objFile infoFile r) = None"
  by (simp add: readCacheFile_def Let_def split_def)

lemma loadCacheReader_flag [simp]:
  "loadCacheReader env (s\<lparr>mIsContextSlotNotAvail := b\<rparr>) = loadCacheReader env s"
  by (simp add: loadCacheReader_def split: option.split)

lemma addDependency_flag [simp]:
  "reader_mIsContextSlotNotAvail (addDependency n d r) = reader_mIsContextSlotNotAvail r"
  by (simp add: addDependency_def)

lemma fold_addDependency_flag [simp]:
  "reader_mIsContextSlotNotAvail (fold (\<lambda>dep. addDependency (f dep) (g dep)) deps r) =
     reader_mIsContextSlotNotAvail r"
  by (induction deps arbitrary: r) simp_all

lemma loadCacheReader_fresh [simp]:
  "\<not> reader_mIsContextSlotNotAvail (loadCacheReader env s)"
  by (simp add: loadCacheReader_def Let_def MCCacheReader_new_def
        reader_registerSymbolCallback_def split: option.split)

lemma read_copies_flag:
  assumes "ReaderReadCacheFile \<in> set (snd (internalLoadCache_read env fs False objPath infoPath s))"
    and "fst (fst (internalLoadCache_read env fs False objPath infoPath s)) \<noteq> 0"
  shows "snd (fst (internalLoadCache_read env fs False objPath infoPath s)) =
           s\<lparr>mIsContextSlotNotAvail :=
               isContextSlotNotAvail
                 (snd (readCacheFile env (InputFile_open env fs objPath)
                         (InputFile_open env fs infoPath) (loadCacheReader env s)))\<rparr>"
  using assms
  by (simp add: internalLoadCache_read_def Let_def split: if_splits prod.splits option.splits)


lemma paths_flag [simp]:
  "getCachedObjectPath env (s\<lparr>mIsContextSlotNotAvail := b\<rparr>) = getCachedObjectPath env s"
  "getCacheInfoPath env (s\<lparr>mIsContextSlotNotAvail := b\<rparr>) = getCacheInfoPath env s"
  by (simp_all add: getCachedObjectPath_def getCacheInfoPath_def)

lemma internalLoadCache_copies_flag:
  assumes "internalLoadCache env fs cacheDir cacheName False s = ((status, s'), evs)"
    and "ReaderReadCacheFile \<in> set evs" and "status \<noteq> 0"
  shows "mIsContextSlotNotAvail s' =
           isContextSlotNotAvail
             (snd (readCacheFile env (InputFile_open env fs (getCachedObjectPath env s'))
                     (InputFile_open env fs (getCacheInfoPath env s'))
                     (loadCacheReader env s')))"
proof (cases "cacheDir = None \<or> cacheName = None")
  case True
  with assms show ?thesis by (simp add: internalLoadCache_null)
next
  case False
  then obtain dir name where args: "cacheDir = Some dir" "cacheName = Some name" by auto
  define s1 where "s1 = s\<lparr>mCacheName := name,
                    mCacheDir := (if dir \<noteq> [] \<and> last dir \<noteq> CHR ''/''
                                  then dir @ ''/'' else dir)\<rparr>"
  define objPath where "objPath = getCachedObjectPath env s1"
  define infoPath where "infoPath = getCacheInfoPath env s1"
  define rd where "rd = internalLoadCache_read env fs False objPath infoPath s1"
  have reached: "ReaderReadCacheFile \<in> set (snd rd) \<and> fst (fst rd) \<noteq> 0 \<and> s' = snd (fst rd)"
    using assms acquire_cases [of env kReadLock objPath] acquire_cases [of env kReadLock infoPath]
    unfolding args internalLoadCache_body [OF s1_def objPath_def infoPath_def] rd_def [symmetric]
    by (auto simp add: emit_def split: if_splits)
  then have "s' = s1\<lparr>mIsContextSlotNotAvail :=
               isContextSlotNotAvail
                 (snd (readCacheFile env (InputFile_open env fs objPath)
                         (InputFile_open env fs infoPath) (loadCacheReader env s1)))\<rparr>"
    using read_copies_flag [of env fs objPath infoPath s1] by (simp add: rd_def)
  then show ?thesis
    by (simp add: objPath_def infoPath_def)
qed

text \<open>
  Claim C5. When a cache passes the stages 1 to 6 and its object-slot list does not fit
  the runtime's slot layout, \<open>checkCacheFile\<close> and \<open>readCacheFile\<close> fail and leave
  the flag raised on the reader; a raised flag stays raised, and a dependency mismatch on
  a reader whose flag is down fails with the flag still down. Whenever
  \<open>internalLoadCache\<close> (not in check-only mode) has called \<open>readCacheFile\<close> and
  returns a failure, the unit's flag is the flag of the reader after that call.
\<close>

theorem context_slot_flag:
  "(ci_fileSizeOk (decodeInfo env (in_data infoFile)) \<and>
    ci_headerOk (decodeInfo env (in_data infoFile)) \<and>
    ci_machineIntTypeOk (decodeInfo env (in_data infoFile)) \<and>
    ci_sectionsOk (decodeInfo env (in_data infoFile)) \<and>
    ci_stringPoolOk (decodeInfo env (in_data infoFile)) \<and>
    checkDependency r (decodeInfo env (in_data infoFile)) \<and>
    \<not> checkContext env (decodeInfo env (in_data infoFile)) \<longrightarrow>
      checkCacheFile env objFile infoFile r =
        (False, r\<lparr>reader_mIsContextSlotNotAvail := True\<rparr>) \<and>
      readCacheFile env objFile infoFile r =
        (None, r\<lparr>reader_mIsContextSlotNotAvail := True\<rparr>)) \<and>
   (isContextSlotNotAvail r \<longrightarrow>
      isContextSlotNotAvail (snd (readCacheFile env objFile infoFile r))) \<and>
   (\<not> isContextSlotNotAvail r \<and> \<not> checkDependency r (decodeInfo env (in_data infoFile)) \<longrightarrow>
      fst (readCacheFile env objFile infoFile r) = None \<and>
      \<not> isContextSlotNotAvail (snd (readCacheFile env objFile infoFile r))) \<and>
   (case internalLoadCache env fs cacheDir cacheName False s of
      ((status, s'), evs) \<Rightarrow>
        ReaderReadCacheFile \<in> set evs \<and> status \<noteq> 0 \<longrightarrow>
          mIsContextSlotNotAvail s' =
            isContextSlotNotAvail
              (snd (readCacheFile env (InputFile_open env fs (getCachedObjectPath env s'))
                      (InputFile_open env fs (getCacheInfoPath env s'))
                      (loadCacheReader env s'))))"
proof (intro conjI impI)
  assume stages: "ci_fileSizeOk (decodeInfo env (in_data infoFile)) \<and>
    ci_headerOk (decodeInfo env (in_data infoFile)) \<and>
    ci_machineIntTypeOk (decodeInfo env (in_data infoFile)) \<and>
    ci_sectionsOk (decodeInfo env (in_data infoFile)) \<and>
    ci_stringPoolOk (decodeInfo env (in_data infoFile)) \<and>
    checkDependency r (decodeInfo env (in_data infoFile)) \<and>
    \<not> checkContext env (decodeInfo env (in_data infoFile))"
  then show c: "checkCacheFile env objFile infoFile r =
        (False, r\<lparr>reader_mIsContextSlotNotAvail := True\<rparr>)"
    by (simp add: checkCacheFile_context)
  then show "readCacheFile env objFile infoFile r =
        (None, r\<lparr>reader_mIsContextSlotNotAvail := True\<rparr>)"
    by (simp add: readCacheFile_def Let_def)
next
  assume "isContextSlotNotAvail r"
  then show "isContextSlotNotAvail (snd (readCacheFile env objFile infoFile r))"
    by (simp add: isContextSlotNotAvail_def readCacheFile_reader checkCacheFile_flag_sticky)
next
  assume a: "\<not> isContextSlotNotAvail r \<and>
    \<not> checkDependency r (decodeInfo env (in_data infoFile))"
  then have "\<not> fst (checkCacheFile env objFile infoFile r)"
    by (simp add: checkCacheFile_def Let_def)
  then show "fst (readCacheFile env objFile infoFile r) = None"
    by (rule readCacheFile_invalid)
  from a show "\<not> isContextSlotNotAvail (snd (readCacheFile env objFile infoFile r))"
    by (simp add: isContextSlotNotAvail_def readCacheFile_reader checkCacheFile_flag_raised)
next
  show "case internalLoadCache env fs cacheDir cacheName False s of
      ((status, s'), evs) \<Rightarrow>
        ReaderReadCacheFile \<in> set evs \<and> status \<noteq> 0 \<longrightarrow>
          mIsContextSlotNotAvail s' =
            isContextSlotNotAvail
              (snd (readCacheFile env (InputFile_open env fs (getCachedObjectPath env s'))
                      (InputFile_open env fs (getCacheInfoPath env s'))
                      (loadCacheReader env s')))"
    using internalLoadCache_copies_flag [of env fs cacheDir cacheName s]
    by (auto split: prod.splits)
qed

theorem context_slot_flag_witness:
  "\<not> checkContext example_env (decodeInfo example_env (in_data example_file)) \<and>
   fst (readCacheFile example_env example_file example_file (loadCacheReader example_env example_unit))
     = None \<and>
   isContextSlotNotAvail
     (snd (readCacheFile example_env example_file example_file
             (loadCacheReader example_env example_unit))) \<and>
   ReaderReadCacheFile \<in>
     set (snd (internalLoadCache example_env example_fs (Some ''/d'') (Some ''n'') False
                 example_unit)) \<and>
   fst (fst (internalLoadCache example_env example_fs (Some ''/d'') (Some ''n'') False
               example_unit)) = 1 \<and>
   mIsContextSlotNotAvail
     (snd (fst (internalLoadCache example_env example_fs (Some ''/d'') (Some ''n'') False
                  example_unit))) \<and>
   \<not> checkDependency (loadCacheReader (example_env\<lparr>sha1LibRS := [3]\<rparr>) example_unit)
        (decodeInfo (example_env\<lparr>sha1LibRS := [3]\<rparr>) (in_data example_file)) \<and>
   fst (fst (internalLoadCache (example_env\<lparr>sha1LibRS := [3]\<rparr>) example_fs (Some ''/d'')
               (Some ''n'') False example_unit)) = 1 \<and>
   \<not> mIsContextSlotNotAvail
     (snd (fst (internalLoadCache (example_env\<lparr>sha1LibRS := [3]\<rparr>) example_fs (Some ''/d'')
                  (Some ''n'') False example_unit)))"
proof -
  let ?r = "loadCacheReader example_env example_unit"
  have stages: "ci_fileSizeOk (decodeInfo example_env (in_data example_file)) \<and>
    ci_headerOk (decodeInfo example_env (in_data example_file)) \<and>
    ci_machineIntTypeOk (decodeInfo example_env (in_data example_file)) \<and>
    ci_sectionsOk (decodeInfo example_env (in_data example_file)) \<and>
    ci_stringPoolOk (decodeInfo example_env (in_data example_file)) \<and>
    checkDependency ?r (decodeInfo example_env (in_data example_file)) \<and>
    \<not> checkContext example_env (decodeInfo example_env (in_data example_file))"
    by code_simp
  have reached: "ReaderReadCacheFile \<in>
     set (snd (internalLoadCache example_env example_fs (Some ''/d'') (Some ''n'') False
                 example_unit)) \<and>
   fst (fst (internalLoadCache example_env example_fs (Some ''/d'') (Some ''n'') False
               example_unit)) = 1"
    by code_simp
  have mismatch: "\<not> checkDependency (loadCacheReader (example_env\<lparr>sha1LibRS := [3]\<rparr>) example_unit)
        (decodeInfo (example_env\<lparr>sha1LibRS := [3]\<rparr>) (in_data example_file)) \<and>
   fst (fst (internalLoadCache (example_env\<lparr>sha1LibRS := [3]\<rparr>) example_fs (Some ''/d'')
               (Some ''n'') False example_unit)) = 1 \<and>
   \<not> mIsContextSlotNotAvail
     (snd (fst (internalLoadCache (example_env\<lparr>sha1LibRS := [3]\<rparr>) example_fs (Some ''/d'')
                  (Some ''n'') False example_unit)))"
    by code_simp
  let ?s' = "snd (fst (internalLoadCache example_env example_fs (Some ''/d'') (Some ''n'') False
                        example_unit))"
  have copied: "isContextSlotNotAvail
      (snd (readCacheFile example_env
              (InputFile_open example_env example_fs (getCachedObjectPath example_env ?s'))
              (InputFile_open example_env example_fs (getCacheInfoPath example_env ?s'))
              (loadCacheReader example_env ?s')))"
    by code_simp
  from context_slot_flag [where env = example_env and infoFile = example_file and r = ?r
         and objFile = example_file and fs = example_fs and cacheDir = "Some ''/d''"
         and cacheName = "Some ''n''" and s = example_unit]
       stages reached copied mismatch
  show ?thesis by (simp add: split_def isContextSlotNotAvail_def)
qed

subsection \<open>The write path\<close>

lemma cleanup_removed:
  assumes "p = objPath \<or> p = infoPath" and "unlink_result env p = 0"
  shows "fst (writeCache_cleanup env objPath infoPath fs) p = None"
  using assms by (auto simp add: writeCache_cleanup_def Let_def unlink_def)

lemma cleanup_truncated:
  assumes "p = objPath \<or> p = infoPath" and "unlink_result env p \<noteq> 0" and "truncate_ok env p"
  shows "fst (writeCache_cleanup env objPath infoPath fs) p = Some []"
  using assms by (auto simp add: writeCache_cleanup_def Let_def unlink_def OutputFile_truncate_def)

lemma cleanup_events:
  "snd (writeCache_cleanup env objPath infoPath fs) =
     [FileTruncate objPath, FileTruncate infoPath, FileClose objPath, FileClose infoPath,
      Unlink objPath] @
     (if unlink_result env objPath \<noteq> 0
      then [ALOGE ''Unable to remove the invalid cache file: %s. (reason: %s)''] else []) @
     [Unlink infoPath] @
     (if unlink_result env infoPath \<noteq> 0
      then [ALOGE ''Unable to remove the invalid cache file: %s. (reason: %s)''] else [])"
  by (simp add: writeCache_cleanup_def Let_def)

lemma fst_OutputFile_open [simp]:
  "fst (OutputFile_open env fs path) = output_hasError env path"
  by (simp add: OutputFile_open_def)

lemma write_writer_fails:
  assumes "\<not> output_hasError env objPath" and "\<not> output_hasError env infoPath"
    and "\<not> writeCacheFile_result env"
    and "fs3 = (snd (OutputFile_open env (snd (OutputFile_open env fs objPath)) infoPath))
                 (objPath \<mapsto> written_obj env, infoPath \<mapsto> written_info env)"
  shows "writeCache_write env fs objPath infoPath s =
           ((0, s, fst (writeCache_cleanup env objPath infoPath fs3)),
            [OutputFileOpen objPath, OutputFileOpen infoPath] @ writeCache_writer env s @
            snd (writeCache_cleanup env objPath infoPath fs3))"
  using assms(1-3) unfolding assms(4)
  by (simp add: writeCache_write_def Let_def split_def emit_def)

text \<open>
  Claim C2, as stated, fails. With both locks held, both files open and a writer that
  fails, an unlink that fails is only logged: both files are still in the file system when
  \<open>writeCache\<close> returns, with length zero, and with the bytes the writer left when
  the truncation fails as well.
\<close>

theorem writeCache_cleans_up_counterexample:
  "mStatus example_compiled_unit_with_path = StatusCompiled \<and>
   \<not> writeCacheFile_result example_env_unlink_fails \<and>
   fst (fst (writeCache example_env_unlink_fails example_fs example_compiled_unit_with_path)) = 0 \<and>
   snd (writeCache example_env_unlink_fails example_fs example_compiled_unit_with_path) =
     [MutexInit kWriteLock ''/d/n.o'', MutexInit kWriteLock ''/d/n.info'',
      MutexLock kWriteLock ''/d/n.o'' True, MutexLock kWriteLock ''/d/n.info'' True,
      OutputFileOpen ''/d/n.o'', OutputFileOpen ''/d/n.info'',
      WriterAddDependency ''/system/lib/libbcc.so.sha1'' [1],
      WriterAddDependency ''/system/lib/libRS.so'' [2],
      WriterWriteCacheFile 0,
      FileTruncate ''/d/n.o'', FileTruncate ''/d/n.info'',
      FileClose ''/d/n.o'', FileClose ''/d/n.info'',
      Unlink ''/d/n.o'',
      ALOGE ''Unable to remove the invalid cache file: %s. (reason: %s)'',
      Unlink ''/d/n.info'',
      ALOGE ''Unable to remove the invalid cache file: %s. (reason: %s)''] \<and>
   snd (snd (fst (writeCache example_env_unlink_fails example_fs
                    example_compiled_unit_with_path))) ''/d/n.o'' = Some [] \<and>
   snd (snd (fst (writeCache example_env_unlink_fails example_fs
                    example_compiled_unit_with_path))) ''/d/n.info'' = Some [] \<and>
   \<not> writeCacheFile_result example_env_cleanup_fails \<and>
   fst (fst (writeCache example_env_cleanup_fails example_fs example_compiled_unit_with_path)) = 0 \<and>
   snd (snd (fst (writeCache example_env_cleanup_fails example_fs
                    example_compiled_unit_with_path))) ''/d/n.o'' = Some [127, 69] \<and>
   snd (snd (fst (writeCache example_env_cleanup_fails example_fs
                    example_compiled_unit_with_path))) ''/d/n.info'' = Some [9]"
  by (simp add: eval_defs example_env_unlink_fails_def example_env_cleanup_fails_def
        example_compiled_unit_with_path_def example_fs_def Let_def)

text \<open>
  Claim C2, amended. When \<open>writeCache\<close> holds both write locks and has both files
  open and \<^verbatim>\<open>writeCacheFile\<close> fails, then before it returns (with 0) it calls
  truncate on the object file and on the info file, closes both and calls unlink on both,
  in this order, logging an unlink that fails. A file whose unlink succeeds is no longer
  in the file system; a file whose unlink fails and whose truncation succeeded is left
  with length zero.
\<close>

theorem writeCache_cleans_up:
  fixes env fs s
  defines "objPath \<equiv> getCachedObjectPath env s"
    and "infoPath \<equiv> getCacheInfoPath env s"
  assumes "mStatus s = StatusCompiled" and "compilerErrorMessage env \<noteq> None"
    and "isCacheable env s"
    and "\<not> mutex_hasError env kWriteLock objPath" and "mutex_lock env kWriteLock objPath"
    and "\<not> mutex_hasError env kWriteLock infoPath" and "mutex_lock env kWriteLock infoPath"
    and "\<not> output_hasError env objPath" and "\<not> output_hasError env infoPath"
    and "\<not> writeCacheFile_result env"
  shows "fst (fst (writeCache env fs s)) = 0 \<and>
         snd (writeCache env fs s) =
           [MutexInit kWriteLock objPath, MutexInit kWriteLock infoPath,
            MutexLock kWriteLock objPath True, MutexLock kWriteLock infoPath True,
            OutputFileOpen objPath, OutputFileOpen infoPath] @
           writeCache_writer env s @
           [FileTruncate objPath, FileTruncate infoPath, FileClose objPath, FileClose infoPath,
            Unlink objPath] @
           (if unlink_result env objPath \<noteq> 0
            then [ALOGE ''Unable to remove the invalid cache file: %s. (reason: %s)'']
            else []) @
           [Unlink infoPath] @
           (if unlink_result env infoPath \<noteq> 0
            then [ALOGE ''Unable to remove the invalid cache file: %s. (reason: %s)'']
            else []) \<and>
         (unlink_result env objPath = 0 \<longrightarrow> snd (snd (fst (writeCache env fs s))) objPath = None) \<and>
         (unlink_result env infoPath = 0 \<longrightarrow>
            snd (snd (fst (writeCache env fs s))) infoPath = None) \<and>
         (unlink_result env objPath \<noteq> 0 \<and> truncate_ok env objPath \<longrightarrow>
            snd (snd (fst (writeCache env fs s))) objPath = Some []) \<and>
         (unlink_result env infoPath \<noteq> 0 \<and> truncate_ok env infoPath \<longrightarrow>
            snd (snd (fst (writeCache env fs s))) infoPath = Some [])"
proof -
  define fs3 where
    "fs3 = (snd (OutputFile_open env (snd (OutputFile_open env fs objPath)) infoPath))
             (objPath \<mapsto> written_obj env, infoPath \<mapsto> written_info env)"
  have w: "writeCache_write env fs objPath infoPath s =
           ((0, s, fst (writeCache_cleanup env objPath infoPath fs3)),
            [OutputFileOpen objPath, OutputFileOpen infoPath] @ writeCache_writer env s @
            snd (writeCache_cleanup env objPath infoPath fs3))"
    using assms(10-12) fs3_def by (rule write_writer_fails)
  have r: "writeCache env fs s =
           ((0, s, fst (writeCache_cleanup env objPath infoPath fs3)),
            [MutexInit kWriteLock objPath, MutexInit kWriteLock infoPath,
             MutexLock kWriteLock objPath True, MutexLock kWriteLock infoPath True,
             OutputFileOpen objPath, OutputFileOpen infoPath] @ writeCache_writer env s @
            snd (writeCache_cleanup env objPath infoPath fs3))"
    using assms(3-9)
    unfolding writeCache_body [OF objPath_def [THEN meta_eq_to_obj_eq]
                infoPath_def [THEN meta_eq_to_obj_eq]]
    by (simp add: acquire_def w emit_def)
  show ?thesis
    unfolding r
    by (simp add: cleanup_events cleanup_removed cleanup_truncated)
qed

theorem writeCache_cleans_up_witness:
  "mStatus example_compiled_unit_with_path = StatusCompiled \<and>
   isCacheable example_env_writer_fails example_compiled_unit_with_path \<and>
   \<not> writeCacheFile_result example_env_writer_fails \<and>
   getCachedObjectPath example_env_writer_fails example_compiled_unit_with_path = ''/d/n.o'' \<and>
   getCacheInfoPath example_env_writer_fails example_compiled_unit_with_path = ''/d/n.info'' \<and>
   fst (fst (writeCache example_env_writer_fails example_fs example_compiled_unit_with_path)) = 0 \<and>
   snd (writeCache example_env_writer_fails example_fs example_compiled_unit_with_path) =
     [MutexInit kWriteLock ''/d/n.o'', MutexInit kWriteLock ''/d/n.info'',
      MutexLock kWriteLock ''/d/n.o'' True, MutexLock kWriteLock ''/d/n.info'' True,
      OutputFileOpen ''/d/n.o'', OutputFileOpen ''/d/n.info'',
      WriterAddDependency ''/system/lib/libbcc.so.sha1'' [1],
      WriterAddDependency ''/system/lib/libRS.so'' [2],
      WriterWriteCacheFile 0,
      FileTruncate ''/d/n.o'', FileTruncate ''/d/n.info'',
      FileClose ''/d/n.o'', FileClose ''/d/n.info'',
      Unlink ''/d/n.o'', Unlink ''/d/n.info''] \<and>
   snd (snd (fst (writeCache example_env_writer_fails example_fs
                    example_compiled_unit_with_path))) ''/d/n.o'' = None \<and>
   snd (snd (fst (writeCache example_env_writer_fails example_fs
                    example_compiled_unit_with_path))) ''/d/n.info'' = None"
proof -
  have paths: "getCachedObjectPath example_env_writer_fails example_compiled_unit_with_path
                 = ''/d/n.o''"
    "getCacheInfoPath example_env_writer_fails example_compiled_unit_with_path = ''/d/n.info''"
    by (simp_all add: eval_defs example_env_writer_fails_def example_compiled_unit_with_path_def)
  have hyps: "mStatus example_compiled_unit_with_path = StatusCompiled"
    "compilerErrorMessage example_env_writer_fails \<noteq> None"
    "isCacheable example_env_writer_fails example_compiled_unit_with_path"
    "\<not> mutex_hasError example_env_writer_fails kWriteLock ''/d/n.o''"
    "mutex_lock example_env_writer_fails kWriteLock ''/d/n.o''"
    "\<not> mutex_hasError example_env_writer_fails kWriteLock ''/d/n.info''"
    "mutex_lock example_env_writer_fails kWriteLock ''/d/n.info''"
    "\<not> output_hasError example_env_writer_fails ''/d/n.o''"
    "\<not> output_hasError example_env_writer_fails ''/d/n.info''"
    "\<not> writeCacheFile_result example_env_writer_fails"
    "unlink_result example_env_writer_fails ''/d/n.o'' = 0"
    "unlink_result example_env_writer_fails ''/d/n.info'' = 0"
    "writeCache_writer example_env_writer_fails example_compiled_unit_with_path =
       [WriterAddDependency ''/system/lib/libbcc.so.sha1'' [1],
        WriterAddDependency ''/system/lib/libRS.so'' [2],
        WriterWriteCacheFile 0]"
    by (simp_all add: eval_defs example_env_writer_fails_def example_compiled_unit_with_path_def)
  from writeCache_cleans_up [of example_compiled_unit_with_path example_env_writer_fails
         example_fs, unfolded paths, OF hyps(1-10)] hyps paths
  show ?thesis by simp
qed


lemma write_status:
  "fst (fst (writeCache_write env fs objPath infoPath s)) =
     (if output_hasError env objPath \<or> output_hasError env infoPath then 1 else 0)"
  by (simp add: writeCache_write_def Let_def split_def)

lemma acquire_granted:
  "fst (acquire env k path) \<longleftrightarrow> \<not> mutex_hasError env k path \<and> mutex_lock env k path"
  by (simp add: acquire_def)

lemma writeCache_status:
  assumes "mStatus s = StatusCompiled"
  shows "fst (fst (writeCache env fs s)) =
     (if compilerErrorMessage env = None \<or>
         isCacheable env s \<and>
         (mutex_hasError env kWriteLock (getCachedObjectPath env s) \<or>
          \<not> mutex_lock env kWriteLock (getCachedObjectPath env s) \<or>
          mutex_hasError env kWriteLock (getCacheInfoPath env s) \<or>
          \<not> mutex_lock env kWriteLock (getCacheInfoPath env s) \<or>
          output_hasError env (getCachedObjectPath env s) \<or>
          output_hasError env (getCacheInfoPath env s))
      then 1 else 0)"
proof -
  define objPath where "objPath = getCachedObjectPath env s"
  define infoPath where "infoPath = getCacheInfoPath env s"
  show ?thesis
    using assms
    unfolding writeCache_body [OF objPath_def infoPath_def] objPath_def [symmetric]
      infoPath_def [symmetric]
    by (simp add: split_def Let_def acquire_granted write_status)
qed

lemma writeCache_unit: "fst (snd (fst (writeCache env fs s))) = s"
proof -
  define objPath where "objPath = getCachedObjectPath env s"
  define infoPath where "infoPath = getCacheInfoPath env s"
  show ?thesis
    unfolding writeCache_body [OF objPath_def infoPath_def]
    by (simp add: split_def Let_def)
qed

lemma internalCompile_ok:
  assumes "new_ScriptCompiled env = Some c" and "readModule_result env = 0"
    and "compile_result env = 0"
  shows "fst (internalCompile env s) = (0, s\<lparr>mCompiled := Some c, mStatus := StatusCompiled\<rparr>)"
  using assms by (simp add: internalCompile_def Let_def)

lemma read_objectType [simp]:
  "mObjectType (snd (fst (internalLoadCache_read env fs checkOnly objPath infoPath s))) =
     mObjectType s"
  by (simp add: internalLoadCache_read_def Let_def split: prod.split option.split)

lemma internalLoadCache_objectType:
  "mObjectType (snd (fst (internalLoadCache env fs cacheDir cacheName checkOnly s))) =
     mObjectType s"
proof (cases "cacheDir = None \<or> cacheName = None")
  case True
  then show ?thesis by (simp add: internalLoadCache_null)
next
  case False
  then obtain dir name where args: "cacheDir = Some dir" "cacheName = Some name" by auto
  define s1 where "s1 = s\<lparr>mCacheName := name,
                    mCacheDir := (if dir \<noteq> [] \<and> last dir \<noteq> CHR ''/''
                                  then dir @ ''/'' else dir)\<rparr>"
  have "mObjectType s1 = mObjectType s" by (simp add: s1_def)
  then show ?thesis
    unfolding args internalLoadCache_body [OF s1_def refl refl]
    by (simp add: split_def Let_def)
qed


lemma prepareExecutable_compiled:
  assumes "mStatus s = StatusUnknown"
    and "fst (fst (internalLoadCache env fs cacheDir cacheName False s)) \<noteq> 0"
    and "fst (internalCompile env (snd (fst (internalLoadCache env fs cacheDir cacheName False s))))
           = (0, s2)"
  shows "fst (prepareExecutable env fs cacheDir cacheName flags s) =
           (if fst (fst (writeCache env fs s2)) \<noteq> 0
            then fst (writeCache env fs s2)
            else (0, s2\<lparr>mObjectType := ObjectExecutable\<rparr>, snd (snd (fst (writeCache env fs s2)))))"
proof -
  have u: "fst (snd (fst (writeCache env fs s2))) = s2" by (rule writeCache_unit)
  obtain st3 s3 fs3 ev3 where w: "writeCache env fs s2 = ((st3, s3, fs3), ev3)"
    by (metis prod.collapse)
  with u have s3: "s3 = s2" by simp
  obtain st1 s1 ev1 where l: "internalLoadCache env fs cacheDir cacheName False s = ((st1, s1), ev1)"
    by (metis prod.collapse)
  obtain ev2 where c: "internalCompile env s1 = ((0, s2), ev2)"
    using assms(3) l by (metis fst_conv prod.collapse snd_conv)
  show ?thesis
    using assms(1,2) l
    by (simp add: prepareExecutable_def l c w s3 prepareExecutable_finish_def)
qed

lemma prepareExecutable_compiled_events:
  assumes "mStatus s = StatusUnknown"
    and "fst (fst (internalLoadCache env fs cacheDir cacheName False s)) \<noteq> 0"
    and "fst (internalCompile env (snd (fst (internalLoadCache env fs cacheDir cacheName False s))))
           = (0, s2)"
  shows "snd (prepareExecutable env fs cacheDir cacheName flags s) =
           snd (internalLoadCache env fs cacheDir cacheName False s) @
           snd (internalCompile env (snd (fst (internalLoadCache env fs cacheDir cacheName False s)))) @
           snd (writeCache env fs s2) @
           (if fst (fst (writeCache env fs s2)) \<noteq> 0
            then [ALOGE ''Failed to write the cache for %s'']
            else [RegisterObjectWithGDB (getELF s2) (getELFSize s2)])"
proof -
  have u: "fst (snd (fst (writeCache env fs s2))) = s2" by (rule writeCache_unit)
  obtain st3 s3 fs3 ev3 where w: "writeCache env fs s2 = ((st3, s3, fs3), ev3)"
    by (metis prod.collapse)
  with u have s3: "s3 = s2" by simp
  obtain st1 s1 ev1 where l: "internalLoadCache env fs cacheDir cacheName False s = ((st1, s1), ev1)"
    by (metis prod.collapse)
  obtain ev2 where c: "internalCompile env s1 = ((0, s2), ev2)"
    using assms(3) l by (metis fst_conv prod.collapse snd_conv)
  show ?thesis
    using assms(1,2) l
    by (simp add: prepareExecutable_def l c w s3 prepareExecutable_finish_def)
qed

text \<open>
  Claim C1, as stated, fails: with a write lock that is not granted the compile succeeds,
  \<open>writeCache\<close> returns 1, and \<open>prepareExecutable\<close> logs the failure and returns
  that 1; the unit is in \<open>Compiled\<close> state, its object type still \<open>Unknown\<close>.
\<close>

theorem cache_write_failure_counterexample:
  "prepareExecutable example_env_no_write_lock Map.empty (Some ''/d'') (Some ''n'') 0 example_unit =
     ((1,
       example_unit\<lparr>mStatus := StatusCompiled,
                    mCompiled := new_ScriptCompiled example_env,
                    mCacheDir := ''/d/'', mCacheName := ''n''\<rparr>,
       Map.empty),
      [MutexInit kReadLock ''/d/n.o'', MutexInit kReadLock ''/d/n.info'',
       MutexLock kReadLock ''/d/n.o'' True, MutexLock kReadLock ''/d/n.info'' True,
       InputFileOpen ''/d/n.o'', InputFileOpen ''/d/n.info'',
       ALOGE ''Unable to open %s for reading! (%s)'',
       NewScriptCompiled, ReadModule, Compile,
       MutexInit kWriteLock ''/d/n.o'', MutexInit kWriteLock ''/d/n.info'',
       MutexLock kWriteLock ''/d/n.o'' False,
       ALOGE ''Unable to acquire the lock for %s! (%s)'',
       ALOGE ''Failed to write the cache for %s''])"
  by (simp add: eval_defs example_env_no_write_lock_def Let_def)

text \<open>
  Claim C1, amended. After a cache miss and a successful compile on a unit in \<open>Unknown\<close>
  state, the unit is in \<open>Compiled\<close> state. \<open>prepareExecutable\<close> returns 1 when
  \<open>writeCache\<close> does: the compiler's message is null, or the unit is cacheable and a
  write lock is not acquired or one of the two files cannot be opened; it then logs
  "Failed to write the cache" as its last call and leaves the object type as it was.
  Otherwise it returns 0 and the object type is \<open>Executable\<close>, whether
  \<^verbatim>\<open>writeCacheFile\<close> succeeded or failed, and its last call registers the compiled
  code with the debugger. In both cases its calls are those of \<open>internalLoadCache\<close>,
  of \<open>internalCompile\<close> and of \<open>writeCache\<close>, then that last one.
\<close>

theorem cache_write_failure:
  fixes env fs cacheDir cacheName flags s c
  defines "s1 \<equiv> snd (fst (internalLoadCache env fs cacheDir cacheName False s))"
  defines "objPath \<equiv> getCachedObjectPath env s1"
    and "infoPath \<equiv> getCacheInfoPath env s1"
  defines "result \<equiv> fst (prepareExecutable env fs cacheDir cacheName flags s)"
  assumes "mStatus s = StatusUnknown"
    and "fst (fst (internalLoadCache env fs cacheDir cacheName False s)) \<noteq> 0"
    and "new_ScriptCompiled env = Some c"
    and "readModule_result env = 0"
    and "compile_result env = 0"
  shows "mStatus (fst (snd result)) = StatusCompiled \<and>
         fst result =
           (if compilerErrorMessage env = None \<or>
               isCacheable env s1 \<and>
               (mutex_hasError env kWriteLock objPath \<or>
                \<not> mutex_lock env kWriteLock objPath \<or>
                mutex_hasError env kWriteLock infoPath \<or>
                \<not> mutex_lock env kWriteLock infoPath \<or>
                output_hasError env objPath \<or>
                output_hasError env infoPath)
            then 1 else 0) \<and>
         mObjectType (fst (snd result)) =
           (if fst result = 0 then ObjectExecutable else mObjectType s) \<and>
         snd (prepareExecutable env fs cacheDir cacheName flags s) =
           snd (internalLoadCache env fs cacheDir cacheName False s) @
           snd (internalCompile env s1) @
           snd (writeCache env fs (s1\<lparr>mCompiled := Some c, mStatus := StatusCompiled\<rparr>)) @
           (if fst result = 0
            then [RegisterObjectWithGDB (Some (compiled_ELF c)) (Some (compiled_ELFSize c))]
            else [ALOGE ''Failed to write the cache for %s''])"
proof -
  define s2 where "s2 = s1\<lparr>mCompiled := Some c, mStatus := StatusCompiled\<rparr>"
  have compiled: "fst (internalCompile env s1) = (0, s2)"
    unfolding s2_def using assms(7-9) by (rule internalCompile_ok)
  have s2: "mStatus s2 = StatusCompiled" "isCacheable env s2 = isCacheable env s1"
    "getCachedObjectPath env s2 = objPath" "getCacheInfoPath env s2 = infoPath"
    "mObjectType s2 = mObjectType s"
    "getELF s2 = Some (compiled_ELF c)" "getELFSize s2 = Some (compiled_ELFSize c)"
    by (simp_all add: s2_def isCacheable_def getCachedObjectPath_def getCacheInfoPath_def
          objPath_def infoPath_def s1_def internalLoadCache_objectType getELF_def getELFSize_def)
  have unit: "fst (snd (fst (writeCache env fs s2))) = s2" by (rule writeCache_unit)
  have r: "result =
           (if fst (fst (writeCache env fs s2)) \<noteq> 0
            then fst (writeCache env fs s2)
            else (0, s2\<lparr>mObjectType := ObjectExecutable\<rparr>, snd (snd (fst (writeCache env fs s2)))))"
    unfolding result_def
    using assms(5,6) compiled [unfolded s1_def] by (rule prepareExecutable_compiled)
  have e: "snd (prepareExecutable env fs cacheDir cacheName flags s) =
           snd (internalLoadCache env fs cacheDir cacheName False s) @
           snd (internalCompile env s1) @
           snd (writeCache env fs s2) @
           (if fst (fst (writeCache env fs s2)) \<noteq> 0
            then [ALOGE ''Failed to write the cache for %s'']
            else [RegisterObjectWithGDB (getELF s2) (getELFSize s2)])"
    unfolding s1_def
    using assms(5,6) compiled [unfolded s1_def] by (rule prepareExecutable_compiled_events)
  show ?thesis
    unfolding r e s2_def [symmetric] using unit
    by (simp add: writeCache_status [OF s2(1)] s2)
qed

theorem cache_write_failure_witness:
  "mStatus example_unit = StatusUnknown \<and>
   fst (fst (internalLoadCache example_env_writer_fails Map.empty (Some ''/d'') (Some ''n'') False
               example_unit)) = 1 \<and>
   \<not> writeCacheFile_result example_env_writer_fails \<and>
   fst (fst (prepareExecutable example_env_writer_fails Map.empty (Some ''/d'') (Some ''n'') 0
               example_unit)) = 0 \<and>
   mStatus (fst (snd (fst (prepareExecutable example_env_writer_fails Map.empty (Some ''/d'')
                             (Some ''n'') 0 example_unit)))) = StatusCompiled \<and>
   mObjectType (fst (snd (fst (prepareExecutable example_env_writer_fails Map.empty (Some ''/d'')
                             (Some ''n'') 0 example_unit)))) = ObjectExecutable \<and>
   fst (fst (prepareExecutable example_env_no_write_lock Map.empty (Some ''/d'') (Some ''n'') 0
               example_unit)) = 1 \<and>
   mStatus (fst (snd (fst (prepareExecutable example_env_no_write_lock Map.empty (Some ''/d'')
                             (Some ''n'') 0 example_unit)))) = StatusCompiled \<and>
   last (snd (prepareExecutable example_env_no_write_lock Map.empty (Some ''/d'') (Some ''n'') 0
                example_unit)) = ALOGE ''Failed to write the cache for %s'' \<and>
   last (snd (prepareExecutable example_env_writer_fails Map.empty (Some ''/d'') (Some ''n'') 0
                example_unit)) = RegisterObjectWithGDB (Some (Some [127, 69])) (Some 2)"
proof -
  let ?c = "the (new_ScriptCompiled example_env)"
  let ?E1 = example_env_writer_fails
  let ?E2 = example_env_no_write_lock
  let ?S1 = "snd (fst (internalLoadCache ?E1 Map.empty (Some ''/d'') (Some ''n'') False
                         example_unit))"
  let ?S2 = "snd (fst (internalLoadCache ?E2 Map.empty (Some ''/d'') (Some ''n'') False
                         example_unit))"
  have u: "mStatus example_unit = StatusUnknown" "mObjectType example_unit = ObjectUnknown"
    by (simp_all add: example_unit_def)
  have l1: "internalLoadCache ?E1 Map.empty (Some ''/d'') (Some ''n'') False example_unit =
      ((1, example_unit\<lparr>mCacheName := ''n'', mCacheDir := ''/d/''\<rparr>),
       [MutexInit kReadLock ''/d/n.o'', MutexInit kReadLock ''/d/n.info'',
        MutexLock kReadLock ''/d/n.o'' True, MutexLock kReadLock ''/d/n.info'' True,
        InputFileOpen ''/d/n.o'', InputFileOpen ''/d/n.info'',
        ALOGE ''Unable to open %s for reading! (%s)''])"
    by (simp add: eval_defs example_env_writer_fails_def Let_def)
  have l2: "internalLoadCache ?E2 Map.empty (Some ''/d'') (Some ''n'') False example_unit =
      ((1, example_unit\<lparr>mCacheName := ''n'', mCacheDir := ''/d/''\<rparr>),
       [MutexInit kReadLock ''/d/n.o'', MutexInit kReadLock ''/d/n.info'',
        MutexLock kReadLock ''/d/n.o'' True, MutexLock kReadLock ''/d/n.info'' True,
        InputFileOpen ''/d/n.o'', InputFileOpen ''/d/n.info'',
        ALOGE ''Unable to open %s for reading! (%s)''])"
    by (simp add: eval_defs example_env_no_write_lock_def Let_def)
  have h1: "fst (fst (internalLoadCache ?E1 Map.empty (Some ''/d'') (Some ''n'') False
                        example_unit)) \<noteq> 0"
    "new_ScriptCompiled ?E1 = Some ?c" "readModule_result ?E1 = 0" "compile_result ?E1 = 0"
    by (simp_all add: l1) (simp_all add: example_env_writer_fails_def example_env_def)
  have h2: "fst (fst (internalLoadCache ?E2 Map.empty (Some ''/d'') (Some ''n'') False
                        example_unit)) \<noteq> 0"
    "new_ScriptCompiled ?E2 = Some ?c" "readModule_result ?E2 = 0" "compile_result ?E2 = 0"
    by (simp_all add: l2) (simp_all add: example_env_no_write_lock_def example_env_def)
  have c1: "\<not> (compilerErrorMessage ?E1 = None \<or>
               isCacheable ?E1 ?S1 \<and>
               (mutex_hasError ?E1 kWriteLock (getCachedObjectPath ?E1 ?S1) \<or>
                \<not> mutex_lock ?E1 kWriteLock (getCachedObjectPath ?E1 ?S1) \<or>
                mutex_hasError ?E1 kWriteLock (getCacheInfoPath ?E1 ?S1) \<or>
                \<not> mutex_lock ?E1 kWriteLock (getCacheInfoPath ?E1 ?S1) \<or>
                output_hasError ?E1 (getCachedObjectPath ?E1 ?S1) \<or>
                output_hasError ?E1 (getCacheInfoPath ?E1 ?S1)))"
    unfolding l1
    by (simp add: example_env_writer_fails_def example_env_def example_unit_def
          isCacheable_def getBooleanProp_def getCachedObjectPath_def getCacheInfoPath_def)
  have c2: "compilerErrorMessage ?E2 = None \<or>
               isCacheable ?E2 ?S2 \<and>
               (mutex_hasError ?E2 kWriteLock (getCachedObjectPath ?E2 ?S2) \<or>
                \<not> mutex_lock ?E2 kWriteLock (getCachedObjectPath ?E2 ?S2) \<or>
                mutex_hasError ?E2 kWriteLock (getCacheInfoPath ?E2 ?S2) \<or>
                \<not> mutex_lock ?E2 kWriteLock (getCacheInfoPath ?E2 ?S2) \<or>
                output_hasError ?E2 (getCachedObjectPath ?E2 ?S2) \<or>
                output_hasError ?E2 (getCacheInfoPath ?E2 ?S2))"
    unfolding l2
    by (simp add: example_env_no_write_lock_def example_env_def example_unit_def
          isCacheable_def getBooleanProp_def getCachedObjectPath_def getCacheInfoPath_def)
  have w: "\<not> writeCacheFile_result ?E1"
    by (simp add: example_env_writer_fails_def)
  note r1 = cache_write_failure [OF u(1) h1, of 0]
  note r2 = cache_write_failure [OF u(1) h2, of 0]
  from r1 have "fst (fst (prepareExecutable ?E1 Map.empty (Some ''/d'') (Some ''n'') 0
               example_unit)) = 0 \<and>
   mStatus (fst (snd (fst (prepareExecutable ?E1 Map.empty (Some ''/d'')
                             (Some ''n'') 0 example_unit)))) = StatusCompiled \<and>
   mObjectType (fst (snd (fst (prepareExecutable ?E1 Map.empty (Some ''/d'')
                             (Some ''n'') 0 example_unit)))) = ObjectExecutable \<and>
   last (snd (prepareExecutable ?E1 Map.empty (Some ''/d'') (Some ''n'') 0 example_unit)) =
     RegisterObjectWithGDB (Some (Some [127, 69])) (Some 2)"
    using c1 by (simp add: example_env_def)
  moreover from r2 have "fst (fst (prepareExecutable ?E2 Map.empty (Some ''/d'') (Some ''n'') 0
               example_unit)) = 1 \<and>
   mStatus (fst (snd (fst (prepareExecutable ?E2 Map.empty (Some ''/d'')
                             (Some ''n'') 0 example_unit)))) = StatusCompiled \<and>
   last (snd (prepareExecutable ?E2 Map.empty (Some ''/d'') (Some ''n'') 0 example_unit)) =
     ALOGE ''Failed to write the cache for %s''"
    using c2 by simp
  ultimately show ?thesis
    using u(1) w by (simp add: l1)
qed

end
